theory Spec2Isabelle
  imports Main
begin

section \<open>Python strings and paths\<close>

text \<open>
  A Python \<open>str\<close> is modelled as a HOL \<open>string\<close> whose characters are the code points
  0..255 (Latin-1), so every non-ASCII character used below is one \<open>char\<close>. On that
  range \<open>str.isalnum\<close> and \<open>str.lower\<close> are given by the Unicode tables written out
  here, and \<open>str.lower\<close> does not leave the range.
\<close>

definition ord :: "char \<Rightarrow> nat" where
  "ord c = of_char c"

definition isalnum :: "char \<Rightarrow> bool" where
  \<comment> \<open>\<open>c.isalnum()\<close>: ASCII digits and letters, and the Latin-1 letters, digits and
      numeric characters (categories L*, and the superscripts and fractions).\<close>
  "isalnum c = (let n = ord c in
     (48 \<le> n \<and> n \<le> 57) \<or> (65 \<le> n \<and> n \<le> 90) \<or> (97 \<le> n \<and> n \<le> 122) \<or>
     n = 170 \<or> n = 178 \<or> n = 179 \<or> n = 181 \<or> n = 185 \<or> n = 186 \<or>
     (188 \<le> n \<and> n \<le> 190) \<or> (192 \<le> n \<and> n \<le> 214) \<or>
     (216 \<le> n \<and> n \<le> 246) \<or> (248 \<le> n \<and> n \<le> 255))"

definition lower_char :: "char \<Rightarrow> char" where
  "lower_char c = (let n = ord c in
     if (65 \<le> n \<and> n \<le> 90) \<or> (192 \<le> n \<and> n \<le> 222 \<and> n \<noteq> 215)
     then char_of (n + 32) else c)"

definition lower :: "string \<Rightarrow> string" where
  \<comment> \<open>\<open>s.lower()\<close>\<close>
  "lower s = map lower_char s"

definition startswith :: "string \<Rightarrow> string \<Rightarrow> bool" where
  "startswith s p = (take (length p) s = p)"

definition endswith :: "string \<Rightarrow> string \<Rightarrow> bool" where
  "endswith s p = (length p \<le> length s \<and> drop (length s - length p) s = p)"

fun contains :: "string \<Rightarrow> string \<Rightarrow> bool" where
  \<comment> \<open>\<open>sub in s\<close>: \<open>sub\<close> occurs in \<open>s\<close> as a contiguous substring\<close>
  "contains [] sub = (sub = [])"
| "contains (c # cs) sub = (startswith (c # cs) sub \<or> contains cs sub)"

definition os_path_join :: "string \<Rightarrow> string \<Rightarrow> string" where
  \<comment> \<open>\<open>os.path.join(a, b)\<close> with the POSIX separator\<close>
  "os_path_join a b =
     (if startswith b ''/'' then b
      else if a = [] \<or> endswith a ''/'' then a @ b
      else a @ ''/'' @ b)"

section \<open>images.py: the cache path\<close>

record ImageFetcher =
  covers_dir :: string
  api_key :: string

definition safe_key :: "string \<Rightarrow> string" where
  \<comment> \<open>\<open>"".join(c if c.isalnum() or c in ("_", "-", ".") else "_" for c in key)\<close>\<close>
  "safe_key key =
     map (\<lambda>c. if isalnum c \<or> c \<in> {CHR ''_'', CHR ''-'', CHR ''.''} then c else CHR ''_'') key"

definition local_path_for :: "ImageFetcher \<Rightarrow> string \<Rightarrow> string" where
  "local_path_for self key = os_path_join (covers_dir self) (safe_key key @ ''.png'')"

text \<open>
  The path function as the specification words it: every character outside
  \<open>[A-Za-z0-9_.-]\<close> becomes an underscore.
\<close>

definition spec_class :: "char \<Rightarrow> bool" where
  "spec_class c = (c \<in> set (''ABCDEFGHIJKLMNOPQRSTUVWXYZ'' @ ''abcdefghijklmnopqrstuvwxyz'' @
                              ''0123456789'' @ ''_.-''))"

definition spec_path_for :: "string \<Rightarrow> string \<Rightarrow> string" where
  "spec_path_for dir key =
     os_path_join dir (map (\<lambda>c. if spec_class c then c else CHR ''_'') key @ ''.png'')"

section \<open>Exceptions and JSON values\<close>

text \<open>
  The exception classes the two modules meet. \<open>requests.exceptions.RequestException\<close>
  and the \<open>FileNotFoundError\<close> and \<open>NotADirectoryError\<close> classes are subclasses of
  \<open>OSError\<close>; the argument is the message, \<open>str(e)\<close>.
\<close>

datatype exn =
    RequestException string
  | OSError string
  | FileNotFoundError string
  | NotADirectoryError string
  | AttributeError string
  | KeyError string
  | IndexError string
  | TypeError string
  | ValueError string

fun is_RequestException :: "exn \<Rightarrow> bool" where
  "is_RequestException (RequestException m) = True"
| "is_RequestException e = False"

fun is_FileNotFoundError :: "exn \<Rightarrow> bool" where
  "is_FileNotFoundError (FileNotFoundError m) = True"
| "is_FileNotFoundError e = False"

fun is_OSError :: "exn \<Rightarrow> bool" where
  "is_OSError (RequestException m) = True"
| "is_OSError (OSError m) = True"
| "is_OSError (FileNotFoundError m) = True"
| "is_OSError (NotADirectoryError m) = True"
| "is_OSError e = False"

fun str_exn :: "exn \<Rightarrow> string" where
  "str_exn (RequestException m) = m"
| "str_exn (OSError m) = m"
| "str_exn (FileNotFoundError m) = m"
| "str_exn (NotADirectoryError m) = m"
| "str_exn (AttributeError m) = m"
| "str_exn (KeyError m) = m"
| "str_exn (IndexError m) = m"
| "str_exn (TypeError m) = m"
| "str_exn (ValueError m) = m"

text \<open>
  Values decoded from JSON (\<open>None\<close>, \<open>bool\<close>, number, \<open>str\<close>, \<open>list\<close>, \<open>dict\<close>); a
  number is an integer here. A game's \<open>image_url\<close> is read from JSON with
  \<open>g.get("image_url")\<close>, so it is such a value, \<open>JNull\<close> when absent.
\<close>

datatype json =
    JNull
  | JBool bool
  | JNum int
  | JStr string
  | JArr "json list"
  | JObj "(string \<times> json) list"

fun truthy :: "json \<Rightarrow> bool" where
  "truthy JNull = False"
| "truthy (JBool b) = b"
| "truthy (JNum n) = (n \<noteq> 0)"
| "truthy (JStr s) = (s \<noteq> [])"
| "truthy (JArr xs) = (xs \<noteq> [])"
| "truthy (JObj kvs) = (kvs \<noteq> [])"

fun py_get :: "json \<Rightarrow> string \<Rightarrow> exn + json" where
  \<comment> \<open>\<open>v.get(k)\<close>: only a dict has the method\<close>
  "py_get (JObj kvs) k = Inr (case map_of kvs k of None \<Rightarrow> JNull | Some v \<Rightarrow> v)"
| "py_get v k = Inl (AttributeError ''get'')"

fun py_first :: "json \<Rightarrow> exn + json" where
  \<comment> \<open>\<open>v[0]\<close>\<close>
  "py_first (JArr (x # xs)) = Inr x"
| "py_first (JArr []) = Inl (IndexError ''list index out of range'')"
| "py_first (JStr (c # cs)) = Inr (JStr [c])"
| "py_first (JStr []) = Inl (IndexError ''string index out of range'')"
| "py_first (JObj kvs) = Inl (KeyError ''0'')"
| "py_first v = Inl (TypeError ''not subscriptable'')"

section \<open>images.py: the environment\<close>

record response =
  status_code :: nat
  iter_content :: "(exn + string) list"
    \<comment> \<open>the chunks of the body in order; \<open>Inl e\<close>: the stream raises \<open>e\<close> there\<close>
  json_body :: "exn + json"
    \<comment> \<open>what \<open>response.json()\<close> returns or raises\<close>

datatype event =
    HttpGet json nat bool
    \<comment> \<open>\<open>requests.get(url, timeout=t, stream=b)\<close>\<close>
  | Open string
  | Write string string
  | Replace string string
  | Emit string string
    \<comment> \<open>\<open>image_ready.emit(key, path)\<close>\<close>

datatype node =
    File string
    \<comment> \<open>a regular file and its contents\<close>
  | Dir "string list"
    \<comment> \<open>a directory and the names \<open>os.listdir\<close> gives, in its order\<close>

type_synonym filesystem = "string \<rightharpoonup> node"

record state =
  files :: filesystem
  trace :: "event list"

text \<open>
  The network and the filesystem answer every call; the first argument of each is the
  number of events before the call, so that two calls with the same arguments may be
  answered differently.
\<close>

record world =
  requests_get :: "nat \<Rightarrow> json \<Rightarrow> nat \<Rightarrow> bool \<Rightarrow> exn + response"
  open_wb :: "nat \<Rightarrow> string \<Rightarrow> exn option"
  file_write :: "nat \<Rightarrow> string \<Rightarrow> string \<Rightarrow> exn option"
  os_replace :: "nat \<Rightarrow> string \<Rightarrow> string \<Rightarrow> exn option"
  quote_plus :: "string \<Rightarrow> string"
    \<comment> \<open>\<open>urllib.parse.quote_plus\<close>\<close>

definition clock :: "state \<Rightarrow> nat" where
  "clock s = length (trace s)"

definition log :: "event \<Rightarrow> state \<Rightarrow> state" where
  "log e s = s\<lparr>trace := trace s @ [e]\<rparr>"

definition stat :: "filesystem \<Rightarrow> string \<Rightarrow> node option" where
  \<comment> \<open>the empty path names nothing: \<open>os.path.exists("")\<close> is \<open>False\<close>\<close>
  "stat fs p = (if p = [] then None else fs p)"

definition os_path_exists :: "filesystem \<Rightarrow> string \<Rightarrow> bool" where
  "os_path_exists fs p = (stat fs p \<noteq> None)"

definition os_path_isdir :: "filesystem \<Rightarrow> string \<Rightarrow> bool" where
  "os_path_isdir fs p = (case stat fs p of Some (Dir names) \<Rightarrow> True | _ \<Rightarrow> False)"

definition os_path_isfile :: "filesystem \<Rightarrow> string \<Rightarrow> bool" where
  "os_path_isfile fs p = (case stat fs p of Some (File data) \<Rightarrow> True | _ \<Rightarrow> False)"

definition os_listdir :: "filesystem \<Rightarrow> string \<Rightarrow> exn + string list" where
  "os_listdir fs p =
     (case stat fs p of
        None \<Rightarrow> Inl (FileNotFoundError p)
      | Some (File data) \<Rightarrow> Inl (NotADirectoryError p)
      | Some (Dir names) \<Rightarrow> Inr names)"

definition raise_for_status :: "response \<Rightarrow> exn option" where
  \<comment> \<open>an \<open>HTTPError\<close>, a \<open>RequestException\<close>, for the 4xx and 5xx codes\<close>
  "raise_for_status r =
     (if 400 \<le> status_code r \<and> status_code r < 600
      then Some (RequestException ''HTTPError'') else None)"

section \<open>images.py: the fetcher\<close>

definition catch_request :: "exn \<Rightarrow> state \<Rightarrow> (exn + bool) \<times> state" where
  \<comment> \<open>\<open>except requests.exceptions.RequestException: return False\<close>; any other exception
      leaves the function\<close>
  "catch_request e s = (if is_RequestException e then (Inr False, s) else (Inl e, s))"

fun write_chunks :: "world \<Rightarrow> string \<Rightarrow> (exn + string) list \<Rightarrow> state \<Rightarrow> exn option \<times> state" where
  \<comment> \<open>\<open>for chunk in response.iter_content(8192): f.write(chunk)\<close>\<close>
  "write_chunks w path [] s = (None, s)"
| "write_chunks w path (Inl e # chunks) s = (Some e, s)"
| "write_chunks w path (Inr chunk # chunks) s =
     (case file_write w (clock s) path chunk of
        Some e \<Rightarrow> (Some e, log (Write path chunk) s)
      | None \<Rightarrow>
          write_chunks w path chunks
            (log (Write path chunk)
               (s\<lparr>files := (files s)(path \<mapsto>
                    File ((case files s path of Some (File old) \<Rightarrow> old | _ \<Rightarrow> []) @ chunk))\<rparr>)))"

definition try_download :: "world \<Rightarrow> json \<Rightarrow> string \<Rightarrow> state \<Rightarrow> (exn + bool) \<times> state" where
  "try_download w url local_path s =
     (let s1 = log (HttpGet url 10 True) s in
      case requests_get w (clock s) url 10 True of
        Inl e \<Rightarrow> catch_request e s1
      | Inr r \<Rightarrow>
         (case raise_for_status r of
            Some e \<Rightarrow> catch_request e s1
          | None \<Rightarrow>
             (let tmp_path = local_path @ ''.tmp'';
                  s2 = log (Open tmp_path) s1 in
              case open_wb w (clock s1) tmp_path of
                Some e \<Rightarrow> catch_request e s2
              | None \<Rightarrow>
                 (case write_chunks w tmp_path (iter_content r)
                         (s2\<lparr>files := (files s2)(tmp_path \<mapsto> File [])\<rparr>) of
                    (Some e, s3) \<Rightarrow> catch_request e s3
                  | (None, s3) \<Rightarrow>
                     (let s4 = log (Replace tmp_path local_path) s3 in
                      case os_replace w (clock s3) tmp_path local_path of
                        Some e \<Rightarrow> catch_request e s4
                      | None \<Rightarrow>
                          (Inr True,
                           s4\<lparr>files := (files s4)
                                 (local_path := files s4 tmp_path, tmp_path := None)\<rparr>))))))"

definition try_fetch_from_rawg ::
    "world \<Rightarrow> ImageFetcher \<Rightarrow> string \<Rightarrow> string \<Rightarrow> state \<Rightarrow> (exn + bool) \<times> state" where
  "try_fetch_from_rawg w self name local_path s =
     (let query = quote_plus w name;
          rawg_url = ''https://api.rawg.io/api/games?search='' @ query @
                     ''&page_size=1&key='' @ api_key self;
          s1 = log (HttpGet (JStr rawg_url) 8 False) s in
      case requests_get w (clock s) (JStr rawg_url) 8 False of
        Inl e \<Rightarrow> catch_request e s1
      | Inr r \<Rightarrow>
         (case raise_for_status r of
            Some e \<Rightarrow> catch_request e s1
          | None \<Rightarrow>
             (case json_body r of
                Inl e \<Rightarrow> catch_request e s1
              | Inr j \<Rightarrow>
                 (case py_get j ''results'' of
                    Inl e \<Rightarrow> catch_request e s1
                  | Inr data \<Rightarrow>
                     if \<not> truthy data then (Inr False, s1)
                     else
                      (case py_first data of
                         Inl e \<Rightarrow> catch_request e s1
                       | Inr first \<Rightarrow>
                          (case py_get first ''background_image'' of
                             Inl e \<Rightarrow> catch_request e s1
                           | Inr image_url \<Rightarrow>
                              if \<not> truthy image_url then (Inr False, s1)
                              else
                               (case try_download w image_url local_path s1 of
                                  (Inl e, s2) \<Rightarrow> catch_request e s2
                                | (Inr ok, s2) \<Rightarrow> (Inr ok, s2))))))))"

definition worker ::
    "world \<Rightarrow> ImageFetcher \<Rightarrow> string \<Rightarrow> string \<Rightarrow> json \<Rightarrow> string \<Rightarrow> state
       \<Rightarrow> exn option \<times> state" where
  \<comment> \<open>\<open>None\<close>: the thread's function returned; \<open>Some e\<close>: it ended with the exception \<open>e\<close>\<close>
  "worker w self key name url local_path s =
     (case (if truthy url then try_download w url local_path s else (Inr False, s)) of
        (Inl e, s1) \<Rightarrow> (Some e, s1)
      | (Inr ok1, s1) \<Rightarrow>
          if ok1 then (None, log (Emit key local_path) s1)
          else
           (case (if api_key self \<noteq> [] then try_fetch_from_rawg w self name local_path s1
                  else (Inr False, s1)) of
              (Inl e, s2) \<Rightarrow> (Some e, s2)
            | (Inr ok2, s2) \<Rightarrow>
                if ok2 then (None, log (Emit key local_path) s2)
                else (None, log (Emit key []) s2)))"

datatype task = Worker string string json string
  \<comment> \<open>\<open>threading.Thread(target=self._worker, args=(game_key, game_name, image_url, local_path))\<close>\<close>

definition fetch ::
    "ImageFetcher \<Rightarrow> string \<Rightarrow> string \<Rightarrow> json \<Rightarrow> state \<Rightarrow> task option \<times> state" where
  \<comment> \<open>returns the thread it started, if any\<close>
  "fetch self game_key game_name image_url s =
     (let local_path = local_path_for self game_key in
      if os_path_exists (files s) local_path
      then (None, log (Emit game_key local_path) s)
      else (Some (Worker game_key game_name image_url local_path), s))"

fun run_task :: "world \<Rightarrow> ImageFetcher \<Rightarrow> task \<Rightarrow> state \<Rightarrow> exn option \<times> state" where
  "run_task w self (Worker key name url local_path) s = worker w self key name url local_path s"

definition request ::
    "world \<Rightarrow> ImageFetcher \<Rightarrow> string \<Rightarrow> string \<Rightarrow> json \<Rightarrow> state \<Rightarrow> exn option \<times> state" where
  \<comment> \<open>one request from the call of \<open>fetch\<close> to the end of the thread it started\<close>
  "request w self game_key game_name image_url s =
     (case fetch self game_key game_name image_url s of
        (None, s1) \<Rightarrow> (None, s1)
      | (Some t, s1) \<Rightarrow> run_task w self t s1)"

fun emitted :: "event list \<Rightarrow> (string \<times> string) list" where
  \<comment> \<open>the \<open>image_ready\<close> signals of a trace, in order\<close>
  "emitted [] = []"
| "emitted (Emit key path # es) = (key, path) # emitted es"
| "emitted (e # es) = emitted es"

fun http_gets :: "event list \<Rightarrow> json list" where
  \<comment> \<open>the URLs of all network calls of a trace\<close>
  "http_gets [] = []"
| "http_gets (HttpGet url t st # es) = url # http_gets es"
| "http_gets (e # es) = http_gets es"

fun api_queries :: "event list \<Rightarrow> json list" where
  \<comment> \<open>the calls of the metadata API: the GET of \<open>_try_fetch_from_rawg\<close> is the one
      with \<open>timeout=8\<close> and no streaming\<close>
  "api_queries [] = []"
| "api_queries (HttpGet url t st # es) =
     (if t = 8 \<and> \<not> st then url # api_queries es else api_queries es)"
| "api_queries (e # es) = api_queries es"

text \<open>
  The two conditions of \<open>_worker\<close> and the two \<open>try\<close> blocks, named so that the
  properties of the worker can speak of a step that succeeded and of a statement that raised.
\<close>

definition download_step :: "world \<Rightarrow> json \<Rightarrow> string \<Rightarrow> state \<Rightarrow> (exn + bool) \<times> state" where
  \<comment> \<open>the first condition of \<open>_worker\<close>: \<open>url and self._try_download(url, local_path)\<close>\<close>
  "download_step w url local_path s =
     (if truthy url then try_download w url local_path s else (Inr False, s))"

definition rawg_step ::
    "world \<Rightarrow> ImageFetcher \<Rightarrow> string \<Rightarrow> string \<Rightarrow> state \<Rightarrow> (exn + bool) \<times> state" where
  \<comment> \<open>the second condition of \<open>_worker\<close>:
      \<open>self.api_key and self._try_fetch_from_rawg(name, local_path)\<close>\<close>
  "rawg_step w self name local_path s =
     (if api_key self \<noteq> [] then try_fetch_from_rawg w self name local_path s
      else (Inr False, s))"

definition download_body :: "world \<Rightarrow> json \<Rightarrow> string \<Rightarrow> state \<Rightarrow> (exn + bool) \<times> state" where
  \<comment> \<open>the \<open>try\<close> block of \<open>_try_download\<close> without its \<open>except\<close> clause: \<open>Inl e\<close> when a
      statement of the block raises \<open>e\<close>\<close>
  "download_body w url local_path s =
     (let s1 = log (HttpGet url 10 True) s in
      case requests_get w (clock s) url 10 True of
        Inl e \<Rightarrow> (Inl e, s1)
      | Inr r \<Rightarrow>
         (case raise_for_status r of
            Some e \<Rightarrow> (Inl e, s1)
          | None \<Rightarrow>
             (let tmp_path = local_path @ ''.tmp'';
                  s2 = log (Open tmp_path) s1 in
              case open_wb w (clock s1) tmp_path of
                Some e \<Rightarrow> (Inl e, s2)
              | None \<Rightarrow>
                 (case write_chunks w tmp_path (iter_content r)
                         (s2\<lparr>files := (files s2)(tmp_path \<mapsto> File [])\<rparr>) of
                    (Some e, s3) \<Rightarrow> (Inl e, s3)
                  | (None, s3) \<Rightarrow>
                     (let s4 = log (Replace tmp_path local_path) s3 in
                      case os_replace w (clock s3) tmp_path local_path of
                        Some e \<Rightarrow> (Inl e, s4)
                      | None \<Rightarrow>
                          (Inr True,
                           s4\<lparr>files := (files s4)
                                 (local_path := files s4 tmp_path, tmp_path := None)\<rparr>))))))"

definition rawg_body ::
    "world \<Rightarrow> ImageFetcher \<Rightarrow> string \<Rightarrow> string \<Rightarrow> state \<Rightarrow> (exn + bool) \<times> state" where
  \<comment> \<open>the \<open>try\<close> block of \<open>_try_fetch_from_rawg\<close> without its \<open>except\<close> clause, and the
      \<open>return False\<close> that follows it\<close>
  "rawg_body w self name local_path s =
     (let query = quote_plus w name;
          rawg_url = ''https://api.rawg.io/api/games?search='' @ query @
                     ''&page_size=1&key='' @ api_key self;
          s1 = log (HttpGet (JStr rawg_url) 8 False) s in
      case requests_get w (clock s) (JStr rawg_url) 8 False of
        Inl e \<Rightarrow> (Inl e, s1)
      | Inr r \<Rightarrow>
         (case raise_for_status r of
            Some e \<Rightarrow> (Inl e, s1)
          | None \<Rightarrow>
             (case json_body r of
                Inl e \<Rightarrow> (Inl e, s1)
              | Inr j \<Rightarrow>
                 (case py_get j ''results'' of
                    Inl e \<Rightarrow> (Inl e, s1)
                  | Inr data \<Rightarrow>
                     if \<not> truthy data then (Inr False, s1)
                     else
                      (case py_first data of
                         Inl e \<Rightarrow> (Inl e, s1)
                       | Inr first \<Rightarrow>
                          (case py_get first ''background_image'' of
                             Inl e \<Rightarrow> (Inl e, s1)
                           | Inr image_url \<Rightarrow>
                              if \<not> truthy image_url then (Inr False, s1)
                              else try_download w image_url local_path s1))))))"

section \<open>launcher.py: finding the emulator\<close>

record config =
  emulators :: "(string \<rightharpoonup> string) option"
    \<comment> \<open>\<open>cfg.get("emulators", {})\<close>: \<open>None\<close> when the key is missing\<close>

datatype fs_event =
    Exists string
  | IsDir string
  | ListDir string
  | IsFile string

fun scan ::
    "filesystem \<Rightarrow> string \<Rightarrow> string \<Rightarrow> string list \<Rightarrow> string option \<times> fs_event list" where
  \<comment> \<open>the \<open>for file in os.listdir(em_dir)\<close> loop, with the calls it makes\<close>
  "scan fs em_dir console [] = (None, [])"
| "scan fs em_dir console (file # rest) =
     (if contains (lower file) (lower console) then
        (let candidate = os_path_join em_dir file in
         if os_path_isfile fs candidate then (Some candidate, [IsFile candidate])
         else (case scan fs em_dir console rest of
                 (r, evs) \<Rightarrow> (r, IsFile candidate # evs)))
      else scan fs em_dir console rest)"

definition fallback :: "filesystem \<Rightarrow> string \<Rightarrow> (exn + string option) \<times> fs_event list" where
  \<comment> \<open>the \<open>try\<close> block: exactly one name ending in \<open>.exe\<close>\<close>
  "fallback fs em_dir =
     (case os_listdir fs em_dir of
        Inl e \<Rightarrow>
          if is_FileNotFoundError e then (Inr None, [ListDir em_dir])
          else (Inl e, [ListDir em_dir])
      | Inr names \<Rightarrow>
          (let files = map (os_path_join em_dir) names;
               exes = filter (\<lambda>f. endswith (lower f) ''.exe'') files in
           if length exes = 1 then (Inr (Some (hd exes)), [ListDir em_dir])
           else (Inr None, [ListDir em_dir])))"

definition configured :: "config \<Rightarrow> string \<Rightarrow> string option" where
  \<comment> \<open>\<open>cfg.get("emulators", {}).get(console)\<close>\<close>
  "configured cfg console = (case emulators cfg of None \<Rightarrow> None | Some m \<Rightarrow> m console)"

definition find_emulator ::
    "filesystem \<Rightarrow> config \<Rightarrow> string \<Rightarrow> (exn + string option) \<times> fs_event list" where
  "find_emulator fs cfg console =
     (let em = configured cfg console;
          evs0 = (case em of None \<Rightarrow> [] | Some p \<Rightarrow> if p = [] then [] else [Exists p]) in
      if (case em of None \<Rightarrow> False | Some p \<Rightarrow> p \<noteq> [] \<and> os_path_exists fs p)
      then (Inr em, evs0)
      else
       (let em_dir = ''emulators'';
            evs1 = evs0 @ [IsDir em_dir] in
        if os_path_isdir fs em_dir then
          (case os_listdir fs em_dir of
             Inl e \<Rightarrow> (Inl e, evs1 @ [ListDir em_dir])
           | Inr names \<Rightarrow>
              (case scan fs em_dir console names of
                 (Some candidate, evs) \<Rightarrow> (Inr (Some candidate), evs1 @ [ListDir em_dir] @ evs)
               | (None, evs) \<Rightarrow>
                  (case fallback fs em_dir of
                     (r, evs2) \<Rightarrow> (r, evs1 @ [ListDir em_dir] @ evs @ evs2))))
        else
          (case fallback fs em_dir of (r, evs2) \<Rightarrow> (r, evs1 @ evs2))))"

section \<open>launcher.py: launching and watching\<close>

datatype launch_event =
    Critical string string
    \<comment> \<open>\<open>QMessageBox.critical(parent, title, text)\<close>\<close>
  | Popen "string list"
    \<comment> \<open>\<open>subprocess.Popen(argv)\<close> was called\<close>
  | Wait nat
    \<comment> \<open>\<open>p.wait()\<close> returned\<close>
  | OnExit string int
    \<comment> \<open>the callback was called with the code\<close>

record os_world =
  popen :: "string list \<Rightarrow> exn + nat"
    \<comment> \<open>the process started, or the exception of \<open>Popen\<close>\<close>
  proc_wait :: "nat \<Rightarrow> int option"
    \<comment> \<open>the exit code; \<open>None\<close> for a process that never ends\<close>

datatype thread = Watcher nat "string option"
  \<comment> \<open>\<open>threading.Thread(target=watcher, args=(proc,))\<close>; the closure holds \<open>on_exit\<close>\<close>

definition launch_and_watch ::
    "filesystem \<Rightarrow> os_world \<Rightarrow> string \<Rightarrow> string \<Rightarrow> string option
       \<Rightarrow> (exn + nat option) \<times> launch_event list \<times> thread option" where
  \<comment> \<open>\<open>on_exit\<close> is the name of a callable, or \<open>None\<close>. Returns the result, the events
      before the return and the thread started. The \<open>print\<close> calls are left out.\<close>
  "launch_and_watch fs w emulator rom_path on_exit =
     (if \<not> os_path_exists fs emulator then
        (Inr None,
         [Critical ''Emulator Missing'' (''Emulator not found:'' @ [CHR 0x0A] @ emulator)],
         None)
      else if \<not> os_path_exists fs rom_path then
        (Inr None,
         [Critical ''ROM Missing'' (''ROM file not found:'' @ [CHR 0x0A] @ rom_path)],
         None)
      else
        (case popen w [emulator, rom_path] of
           Inl e \<Rightarrow>
             if is_OSError e then
               (Inr None, [Popen [emulator, rom_path], Critical ''Launch Failed'' (str_exn e)],
                None)
             else (Inl e, [Popen [emulator, rom_path]], None)
         | Inr proc \<Rightarrow>
             (Inr (Some proc), [Popen [emulator, rom_path]], Some (Watcher proc on_exit))))"

fun watcher :: "os_world \<Rightarrow> thread \<Rightarrow> launch_event list option" where
  \<comment> \<open>the body of the watch thread; \<open>None\<close>: \<open>p.wait()\<close> never returns\<close>
  "watcher w (Watcher p on_exit) =
     (case proc_wait w p of
        None \<Rightarrow> None
      | Some code \<Rightarrow>
          Some (Wait p # (case on_exit of Some cb \<Rightarrow> [OnExit cb code] | None \<Rightarrow> [])))"

fun exit_codes :: "launch_event list \<Rightarrow> int list" where
  \<comment> \<open>the codes the callback was called with\<close>
  "exit_codes [] = []"
| "exit_codes (OnExit cb code # es) = code # exit_codes es"
| "exit_codes (e # es) = exit_codes es"

fun spawned :: "launch_event list \<Rightarrow> string list list" where
  \<comment> \<open>the calls of \<open>Popen\<close>\<close>
  "spawned [] = []"
| "spawned (Popen argv # es) = argv # spawned es"
| "spawned (e # es) = spawned es"

fun waits :: "launch_event list \<Rightarrow> nat list" where
  "waits [] = []"
| "waits (Wait p # es) = p # waits es"
| "waits (e # es) = waits es"

text \<open>The events of the temporary file; none of them is a signal or a network call.\<close>

fun is_file_event :: "event \<Rightarrow> bool" where
  "is_file_event (Open p) = True"
| "is_file_event (Write p c) = True"
| "is_file_event (Replace a b) = True"
| "is_file_event e = False"

section \<open>Example environments\<close>

definition example_fetcher :: ImageFetcher where
  "example_fetcher = \<lparr>covers_dir = ''resources/covers'', api_key = []\<rparr>"

definition empty_state :: state where
  "empty_state = \<lparr>files = Map.empty, trace = []\<rparr>"

definition cached_state :: state where
  "cached_state = \<lparr>files = [''resources/covers/NES__Foo.png'' \<mapsto> File ''PNG''], trace = []\<rparr>"

definition image_response :: response where
  "image_response =
     \<lparr>status_code = 200, iter_content = [Inr ''PNG''],
      json_body = Inl (RequestException ''JSONDecodeError'')\<rparr>"

definition world_ok :: world where
  "world_ok =
     \<lparr>requests_get = (\<lambda>t url timeout stream. Inr image_response),
      open_wb = (\<lambda>t path. None),
      file_write = (\<lambda>t path chunk. None),
      os_replace = (\<lambda>t src dst. None),
      quote_plus = (\<lambda>name. name)\<rparr>"

definition world_disk_full :: world where
  "world_disk_full = world_ok\<lparr>file_write := (\<lambda>t path chunk. Some (OSError ''No space left on device''))\<rparr>"

definition world_rename_denied :: world where
  "world_rename_denied = world_ok\<lparr>os_replace := (\<lambda>t src dst. Some (OSError ''Permission denied''))\<rparr>"

definition world_timeout :: world where
  "world_timeout = world_ok\<lparr>requests_get := (\<lambda>t url timeout stream. Inl (RequestException ''ConnectTimeout''))\<rparr>"

definition example_fetcher_with_key :: ImageFetcher where
  "example_fetcher_with_key = \<lparr>covers_dir = ''resources/covers'', api_key = ''0123456789abcdef''\<rparr>"

definition world_read_only :: world where
  "world_read_only =
     world_ok\<lparr>open_wb := (\<lambda>t path. Some (OSError ''[Errno 30] Read-only file system''))\<rparr>"

definition example_fs :: filesystem where
  \<comment> \<open>an \<open>emulators\<close> folder with a text file, a subfolder and one executable\<close>
  "example_fs =
     [''emulators'' \<mapsto> Dir [''readme.txt'', ''saves'', ''Nestopia.EXE''],
      ''emulators/readme.txt'' \<mapsto> File ''read me'',
      ''emulators/saves'' \<mapsto> Dir [],
      ''emulators/Nestopia.EXE'' \<mapsto> File ''MZ'',
      ''emu/nestopia'' \<mapsto> File ''ELF'',
      ''roms/mario.nes'' \<mapsto> File ''NES'']"

definition example_config :: config where
  "example_config = \<lparr>emulators = Some [''NES'' \<mapsto> ''emu/nestopia'', ''GBA'' \<mapsto> ''emu/vba'']\<rparr>"

definition example_os :: os_world where
  "example_os = \<lparr>popen = (\<lambda>argv. Inr 4242), proc_wait = (\<lambda>p. Some 3)\<rparr>"

definition example_os_noexec :: os_world where
  "example_os_noexec =
     \<lparr>popen = (\<lambda>argv. Inl (OSError ''[Errno 8] Exec format error'')),
      proc_wait = (\<lambda>p. None)\<rparr>"

section \<open>Traces and files of the fetch steps\<close>

lemma emitted_append: "emitted (xs @ ys) = emitted xs @ emitted ys"
  by (induction xs rule: emitted.induct) simp_all

lemma api_queries_append: "api_queries (xs @ ys) = api_queries xs @ api_queries ys"
  by (induction xs rule: api_queries.induct) simp_all

lemma http_gets_append: "http_gets (xs @ ys) = http_gets xs @ http_gets ys"
  by (induction xs rule: http_gets.induct) simp_all

lemma file_events_silent:
  "list_all is_file_event evs \<Longrightarrow> emitted evs = [] \<and> api_queries evs = [] \<and> http_gets evs = []"
proof (induction evs)
  case Nil
  then show ?case by simp
next
  case (Cons e evs)
  then show ?case by (cases e) simp_all
qed

lemma trace_log: "trace (log e s) = trace s @ [e]"
  by (simp add: log_def)

lemma files_log: "files (log e s) = files s"
  by (simp add: log_def)

lemma catch_request_state: "catch_request e s = (r, s') \<Longrightarrow> s' = s"
  by (simp add: catch_request_def split: if_splits)

lemma catch_request_Inl: "catch_request e s = (Inl e', s') \<Longrightarrow> \<not> is_RequestException e'"
  by (auto simp: catch_request_def split: if_splits)

lemma catch_request_Inr: "catch_request e s = (Inr b, s') \<Longrightarrow> \<not> b"
  by (auto simp: catch_request_def split: if_splits)

lemma write_chunks_trace:
  "write_chunks w p cs s = (r, s') \<Longrightarrow>
     \<exists>evs. trace s' = trace s @ evs \<and> list_all is_file_event evs"
proof (induction w p cs s arbitrary: r s' rule: write_chunks.induct)
  case (1 w path s)
  then show ?case by simp
next
  case (2 w path e chunks s)
  then show ?case by simp
next
  case (3 w path chunk chunks s)
  show ?case
  proof (cases "file_write w (clock s) path chunk")
    case None
    with 3 obtain evs where
      "trace s' = (trace s @ [Write path chunk]) @ evs" "list_all is_file_event evs"
      by (fastforce simp: trace_log)
    then show ?thesis by simp
  next
    case (Some e)
    with 3 show ?thesis by (auto simp: trace_log)
  qed
qed

lemma try_download_trace:
  assumes "try_download w url lp s = (r, s')"
  shows "\<exists>evs. trace s' = trace s @ HttpGet url 10 True # evs \<and> list_all is_file_event evs"
proof (cases "requests_get w (clock s) url 10 True")
  case (Inl e)
  with assms show ?thesis
    by (auto simp: try_download_def Let_def trace_log dest!: catch_request_state)
next
  case (Inr resp)
  show ?thesis
  proof (cases "raise_for_status resp")
    case (Some e)
    with assms Inr show ?thesis
      by (auto simp: try_download_def Let_def trace_log dest!: catch_request_state)
  next
    case None
    note ok = this
    let ?tmp = "lp @ ''.tmp''"
    let ?s1 = "log (HttpGet url 10 True) s"
    let ?s2 = "log (Open ?tmp) ?s1"
    show ?thesis
    proof (cases "open_wb w (clock ?s1) ?tmp")
      case (Some e)
      with assms Inr ok show ?thesis
        by (auto simp: try_download_def Let_def trace_log dest!: catch_request_state)
    next
      case None
      note opened = this
      obtain r3 s3 where wc:
        "write_chunks w ?tmp (iter_content resp) (?s2\<lparr>files := (files ?s2)(?tmp \<mapsto> File [])\<rparr>) = (r3, s3)"
        by (cases "write_chunks w ?tmp (iter_content resp) (?s2\<lparr>files := (files ?s2)(?tmp \<mapsto> File [])\<rparr>)")
      from write_chunks_trace [OF wc] obtain evs where
        evs: "trace s3 = trace s @ HttpGet url 10 True # Open ?tmp # evs" "list_all is_file_event evs"
        by (auto simp: trace_log)
      show ?thesis
      proof (cases r3)
        case (Some e)
        with assms Inr ok opened wc have "s' = s3"
          by (auto simp: try_download_def Let_def dest!: catch_request_state)
        with evs show ?thesis by simp
      next
        case None
        with assms Inr ok opened wc
        have "trace s' = trace s3 @ [Replace ?tmp lp]"
          by (auto simp: try_download_def Let_def trace_log split: option.splits
                   dest!: catch_request_state)
        with evs show ?thesis by simp
      qed
    qed
  qed
qed

lemma try_download_Inl:
  "try_download w url lp s = (Inl e, s') \<Longrightarrow> \<not> is_RequestException e"
  by (auto simp: try_download_def Let_def split: sum.splits option.splits prod.splits
           dest: catch_request_Inl)


lemma write_chunks_files:
  "write_chunks w p cs s = (r, s') \<Longrightarrow>
     (\<forall>q. q \<noteq> p \<longrightarrow> files s' q = files s q) \<and> (files s p \<noteq> None \<longrightarrow> files s' p \<noteq> None)"
proof (induction w p cs s arbitrary: r s' rule: write_chunks.induct)
  case (1 w path s)
  then show ?case by simp
next
  case (2 w path e chunks s)
  then show ?case by simp
next
  case (3 w path chunk chunks s)
  show ?case
  proof (cases "file_write w (clock s) path chunk")
    case None
    with 3 show ?thesis by (fastforce simp: files_log)
  next
    case (Some e)
    with 3 show ?thesis by (auto simp: files_log)
  qed
qed

lemma try_download_files:
  assumes "try_download w url lp s = (r, s')"
  shows "(r = Inr True \<longrightarrow> files s' lp \<noteq> None) \<and> (r \<noteq> Inr True \<longrightarrow> files s' lp = files s lp)"
proof (cases "requests_get w (clock s) url 10 True")
  case (Inl e)
  with assms show ?thesis
    by (auto simp: try_download_def Let_def files_log catch_request_def split: if_splits)
next
  case (Inr resp)
  show ?thesis
  proof (cases "raise_for_status resp")
    case (Some e)
    with assms Inr show ?thesis
      by (auto simp: try_download_def Let_def files_log catch_request_def split: if_splits)
  next
    case None
    note ok = this
    let ?tmp = "lp @ ''.tmp''"
    let ?s1 = "log (HttpGet url 10 True) s"
    let ?s2 = "log (Open ?tmp) ?s1"
    show ?thesis
    proof (cases "open_wb w (clock ?s1) ?tmp")
      case (Some e)
      with assms Inr ok show ?thesis
        by (auto simp: try_download_def Let_def files_log catch_request_def split: if_splits)
    next
      case None
      note opened = this
      obtain r3 s3 where wc:
        "write_chunks w ?tmp (iter_content resp) (?s2\<lparr>files := (files ?s2)(?tmp \<mapsto> File [])\<rparr>) = (r3, s3)"
        by (cases "write_chunks w ?tmp (iter_content resp) (?s2\<lparr>files := (files ?s2)(?tmp \<mapsto> File [])\<rparr>)")
      from write_chunks_files [OF wc]
      have f3: "files s3 lp = files s lp" "files s3 ?tmp \<noteq> None"
        by (simp_all add: files_log)
      show ?thesis
      proof (cases r3)
        case (Some e)
        with assms Inr ok opened wc have "s' = s3" "r \<noteq> Inr True"
          by (auto simp: try_download_def Let_def catch_request_def split: if_splits)
        with f3 show ?thesis by simp
      next
        case None
        note written = this
        show ?thesis
        proof (cases "os_replace w (clock s3) ?tmp lp")
          case (Some e)
          with assms Inr ok opened wc written
          have "files s' = files s3" "r \<noteq> Inr True"
            by (auto simp: try_download_def Let_def files_log catch_request_def split: if_splits)
          with f3 show ?thesis by simp
        next
          case None
          with assms Inr ok opened wc written
          have "r = Inr True" "files s' lp = files s3 ?tmp"
            by (auto simp: try_download_def Let_def files_log)
          with f3 show ?thesis by simp
        qed
      qed
    qed
  qed
qed

lemma try_fetch_from_rawg_trace:
  assumes "try_fetch_from_rawg w self name lp s = (r, s')"
  shows "\<exists>u evs. trace s' = trace s @ HttpGet (JStr u) 8 False # evs \<and>
           emitted evs = [] \<and> api_queries evs = []"
proof -
  let ?u = "''https://api.rawg.io/api/games?search='' @ quote_plus w name @
            ''&page_size=1&key='' @ api_key self"
  let ?s1 = "log (HttpGet (JStr ?u) 8 False) s"
  have "s' = ?s1 \<or> (\<exists>img r2. try_download w img lp ?s1 = (r2, s'))"
    using assms
    by (auto simp: try_fetch_from_rawg_def Let_def catch_request_def
             split: sum.splits option.splits if_splits prod.splits)
  then show ?thesis
  proof
    assume "s' = ?s1"
    then show ?thesis by (simp add: trace_log)
  next
    assume "\<exists>img r2. try_download w img lp ?s1 = (r2, s')"
    then obtain img r2 where "try_download w img lp ?s1 = (r2, s')" by blast
    from try_download_trace [OF this] obtain evs where
      "trace s' = trace s @ HttpGet (JStr ?u) 8 False # HttpGet img 10 True # evs"
      "list_all is_file_event evs"
      by (auto simp: trace_log)
    then show ?thesis using file_events_silent [of evs] by simp
  qed
qed

lemma try_fetch_from_rawg_Inl:
  "try_fetch_from_rawg w self name lp s = (Inl e, s') \<Longrightarrow> \<not> is_RequestException e"
  by (auto simp: try_fetch_from_rawg_def Let_def
           split: sum.splits option.splits prod.splits if_splits
           dest: catch_request_Inl)

lemma try_fetch_from_rawg_files:
  assumes "try_fetch_from_rawg w self name lp s = (r, s')"
  shows "(r = Inr True \<longrightarrow> files s' lp \<noteq> None) \<and> (r \<noteq> Inr True \<longrightarrow> files s' lp = files s lp)"
proof -
  let ?u = "''https://api.rawg.io/api/games?search='' @ quote_plus w name @
            ''&page_size=1&key='' @ api_key self"
  let ?s1 = "log (HttpGet (JStr ?u) 8 False) s"
  have "(s' = ?s1 \<and> r \<noteq> Inr True) \<or>
        (\<exists>img r2. try_download w img lp ?s1 = (r2, s') \<and> (r = Inr True \<longleftrightarrow> r2 = Inr True))"
    using assms
    by (auto simp: try_fetch_from_rawg_def Let_def catch_request_def
             split: sum.splits option.splits if_splits prod.splits)
  then show ?thesis
  proof
    assume "s' = ?s1 \<and> r \<noteq> Inr True"
    then show ?thesis by (simp add: files_log)
  next
    assume "\<exists>img r2. try_download w img lp ?s1 = (r2, s') \<and> (r = Inr True \<longleftrightarrow> r2 = Inr True)"
    then obtain img r2 where d: "try_download w img lp ?s1 = (r2, s')"
      and eq: "r = Inr True \<longleftrightarrow> r2 = Inr True" by blast
    from try_download_files [OF d] eq show ?thesis by (simp add: files_log)
  qed
qed


lemma worker_first_step:
  assumes "worker w self key name url lp s = (r, s')"
      and "truthy url" and "try_download w url lp s = (Inl e, s1)"
  shows "r = Some e \<and> s' = s1"
  using assms by (simp add: worker_def)

lemma worker_first_ok:
  assumes "truthy url" and "try_download w url lp s = (Inr True, s1)"
  shows "worker w self key name url lp s = (None, log (Emit key lp) s1)"
  using assms by (simp add: worker_def)

lemma worker_no_key:
  assumes "\<not> truthy url \<and> s1 = s \<or> truthy url \<and> try_download w url lp s = (Inr False, s1)"
      and "api_key self = []"
  shows "worker w self key name url lp s = (None, log (Emit key []) s1)"
  using assms by (auto simp: worker_def)

lemma worker_second_step:
  assumes "\<not> truthy url \<and> s1 = s \<or> truthy url \<and> try_download w url lp s = (Inr False, s1)"
      and "api_key self \<noteq> []"
      and "try_fetch_from_rawg w self name lp s1 = (r2, s2)"
  shows "worker w self key name url lp s =
           (case r2 of Inl e \<Rightarrow> (Some e, s2)
            | Inr ok \<Rightarrow> (None, log (Emit key (if ok then lp else [])) s2))"
  using assms by (auto simp: worker_def split: sum.splits)

lemma worker_effect:
  assumes run: "worker w self key name url lp s = (r, s')"
  shows "\<exists>evs. trace s' = trace s @ evs \<and>
           (case r of
              Some e \<Rightarrow> emitted evs = [] \<and> \<not> is_RequestException e
            | None \<Rightarrow>
                emitted evs = [(key, lp)] \<and> files s' lp \<noteq> None \<or>
                emitted evs = [(key, [])] \<and> files s' lp = files s lp)"
proof -
  obtain r1 s1 where first:
    "(if truthy url then try_download w url lp s else (Inr False, s)) = (r1, s1)"
    by (cases "if truthy url then try_download w url lp s else (Inr False, s)")
  have t1: "\<exists>evs. trace s1 = trace s @ evs \<and> emitted evs = []"
  proof (cases "truthy url")
    case True
    with first have "try_download w url lp s = (r1, s1)" by simp
    from try_download_trace [OF this] obtain evs where
      "trace s1 = trace s @ HttpGet url 10 True # evs" "list_all is_file_event evs" by blast
    then show ?thesis using file_events_silent [of evs] by simp
  next
    case False
    with first show ?thesis by simp
  qed
  have f1: "(r1 = Inr True \<longrightarrow> files s1 lp \<noteq> None) \<and> (r1 \<noteq> Inr True \<longrightarrow> files s1 lp = files s lp)"
  proof (cases "truthy url")
    case True
    with first have "try_download w url lp s = (r1, s1)" by simp
    from try_download_files [OF this] show ?thesis .
  next
    case False
    with first show ?thesis by auto
  qed
  have e1: "\<And>e. r1 = Inl e \<Longrightarrow> \<not> is_RequestException e"
    using first try_download_Inl by (auto split: if_splits)
  from t1 obtain evs1 where evs1: "trace s1 = trace s @ evs1" "emitted evs1 = []" by blast
  show ?thesis
  proof (cases r1)
    case (Inl e)
    with run first have "r = Some e" "s' = s1" by (simp_all add: worker_def)
    with evs1 e1 [OF Inl] show ?thesis by simp
  next
    case (Inr ok1)
    show ?thesis
    proof (cases ok1)
      case True
      with run first Inr have "r = None" "s' = log (Emit key lp) s1"
        by (simp_all add: worker_def)
      with evs1 f1 Inr True show ?thesis by (simp add: trace_log files_log emitted_append)
    next
      case False
      note failed1 = this
      obtain r2 s2 where second:
        "(if api_key self \<noteq> [] then try_fetch_from_rawg w self name lp s1 else (Inr False, s1))
           = (r2, s2)"
        by (cases "if api_key self \<noteq> [] then try_fetch_from_rawg w self name lp s1
                   else (Inr False, s1)")
      have t2: "\<exists>evs. trace s2 = trace s1 @ evs \<and> emitted evs = []"
      proof (cases "api_key self \<noteq> []")
        case True
        with second have "try_fetch_from_rawg w self name lp s1 = (r2, s2)" by simp
        from try_fetch_from_rawg_trace [OF this] show ?thesis by auto
      next
        case False
        with second show ?thesis by simp
      qed
      have f2: "(r2 = Inr True \<longrightarrow> files s2 lp \<noteq> None) \<and>
                (r2 \<noteq> Inr True \<longrightarrow> files s2 lp = files s1 lp)"
      proof (cases "api_key self \<noteq> []")
        case True
        with second have "try_fetch_from_rawg w self name lp s1 = (r2, s2)" by simp
        from try_fetch_from_rawg_files [OF this] show ?thesis .
      next
        case False
        with second show ?thesis by auto
      qed
      have e2: "\<And>e. r2 = Inl e \<Longrightarrow> \<not> is_RequestException e"
        using second try_fetch_from_rawg_Inl by (auto split: if_splits)
      from t2 obtain evs2 where evs2: "trace s2 = trace s1 @ evs2" "emitted evs2 = []" by blast
      from f1 Inr failed1 have same1: "files s1 lp = files s lp" by simp
      show ?thesis
      proof (cases r2)
        case (Inl e)
        with run first second Inr failed1 have "r = Some e" "s' = s2"
          by (simp_all add: worker_def)
        with evs1 evs2 e2 [OF Inl] show ?thesis by (simp add: emitted_append)
      next
        case (Inr ok2)
        with run first second \<open>r1 = Inr ok1\<close> failed1
        have "r = None" "s' = log (Emit key (if ok2 then lp else [])) s2"
          by (auto simp: worker_def split: if_splits)
        with evs1 evs2 f2 same1 Inr show ?thesis
          by (cases ok2) (simp_all add: trace_log files_log emitted_append)
      qed
    qed
  qed
qed


lemma os_path_join_nonempty: "b \<noteq> [] \<Longrightarrow> os_path_join a b \<noteq> []"
  by (simp add: os_path_join_def)

lemma local_path_for_nonempty: "local_path_for self key \<noteq> []"
  by (simp add: local_path_for_def os_path_join_nonempty)

section \<open>Properties of images.py\<close>

lemma worker_by_steps:
  "worker w self key name url lp s =
     (case download_step w url lp s of
        (Inl e, s1) \<Rightarrow> (Some e, s1)
      | (Inr ok1, s1) \<Rightarrow>
          if ok1 then (None, log (Emit key lp) s1)
          else
           (case rawg_step w self name lp s1 of
              (Inl e, s2) \<Rightarrow> (Some e, s2)
            | (Inr ok2, s2) \<Rightarrow> (None, log (Emit key (if ok2 then lp else [])) s2)))"
  by (simp add: worker_def download_step_def rawg_step_def split: prod.splits sum.splits)

lemma worker_returns:
  assumes "worker w self key name url lp s = (None, s')"
  shows "emitted (trace s') = emitted (trace s) @
           [(key, if fst (download_step w url lp s) = Inr True \<or>
                     fst (download_step w url lp s) = Inr False \<and>
                     fst (rawg_step w self name lp (snd (download_step w url lp s))) = Inr True
                  then lp else [])]"
proof -
  obtain r1 s1 where d: "download_step w url lp s = (r1, s1)"
    by (cases "download_step w url lp s")
  obtain r2 s2 where g: "rawg_step w self name lp s1 = (r2, s2)"
    by (cases "rawg_step w self name lp s1")
  have t1: "emitted (trace s1) = emitted (trace s)"
  proof (cases "truthy url")
    case True
    with d have "try_download w url lp s = (r1, s1)" by (simp add: download_step_def)
    from try_download_trace [OF this] obtain evs where
      "trace s1 = trace s @ HttpGet url 10 True # evs" "list_all is_file_event evs" by blast
    then show ?thesis using file_events_silent [of evs] by (simp add: emitted_append)
  next
    case False
    with d show ?thesis by (simp add: download_step_def)
  qed
  have t2: "emitted (trace s2) = emitted (trace s1)"
  proof (cases "api_key self \<noteq> []")
    case True
    with g have "try_fetch_from_rawg w self name lp s1 = (r2, s2)" by (simp add: rawg_step_def)
    from try_fetch_from_rawg_trace [OF this] show ?thesis by (auto simp: emitted_append)
  next
    case False
    with g show ?thesis by (simp add: rawg_step_def)
  qed
  from assms d obtain ok1 where r1: "r1 = Inr ok1"
    by (cases r1) (simp_all add: worker_by_steps)
  show ?thesis
  proof (cases ok1)
    case True
    with assms d r1 have "s' = log (Emit key lp) s1" by (simp add: worker_by_steps)
    with d r1 True t1 show ?thesis by (simp add: trace_log emitted_append)
  next
    case False
    with assms d g r1 obtain ok2 where r2: "r2 = Inr ok2"
      by (cases r2) (simp_all add: worker_by_steps)
    with assms d g r1 False have "s' = log (Emit key (if ok2 then lp else [])) s2"
      by (simp add: worker_by_steps)
    with d g r1 r2 False t1 t2 show ?thesis by (simp add: trace_log emitted_append)
  qed
qed

lemma worker_at_most_one:
  assumes "worker w self key name url lp s = (r, s')"
  shows "\<exists>n. emitted (trace s') = emitted (trace s) @ n \<and> length n \<le> 1 \<and> set (map fst n) \<subseteq> {key}"
proof -
  from worker_effect [OF assms] obtain evs where
    tr: "trace s' = trace s @ evs" and
    eff: "case r of
            Some e \<Rightarrow> emitted evs = [] \<and> \<not> is_RequestException e
          | None \<Rightarrow>
              emitted evs = [(key, lp)] \<and> files s' lp \<noteq> None \<or>
              emitted evs = [(key, [])] \<and> files s' lp = files s lp"
    by blast
  from eff have "length (emitted evs) \<le> 1 \<and> set (map fst (emitted evs)) \<subseteq> {key}"
    by (cases r) auto
  with tr show ?thesis by (auto simp: emitted_append)
qed

text \<open>
  C1 (as amended). A request whose cover is on disk gets its one \<open>image_ready\<close> signal,
  with the cache path, from \<open>fetch\<close> itself; otherwise \<open>fetch\<close> emits nothing and starts
  one worker thread. Whenever that thread runs, it emits at most one signal, for the key of
  the request; if it returns, it emits exactly one: the cache path when the direct download
  or the fetch through the metadata API succeeded, the empty string when neither did.
\<close>

theorem C1_one_result_per_returning_request:
  "(os_path_exists (files s) (local_path_for self key) \<longrightarrow>
      fetch self key name url s = (None, log (Emit key (local_path_for self key)) s) \<and>
      emitted (trace (snd (fetch self key name url s)))
        = emitted (trace s) @ [(key, local_path_for self key)]) \<and>
   (\<not> os_path_exists (files s) (local_path_for self key) \<longrightarrow>
      fetch self key name url s = (Some (Worker key name url (local_path_for self key)), s)) \<and>
   (run_task w self (Worker key name url lp) s_in = (r, s_out) \<longrightarrow>
      (\<exists>n. emitted (trace s_out) = emitted (trace s_in) @ n \<and> length n \<le> 1 \<and>
           set (map fst n) \<subseteq> {key}) \<and>
      (r = None \<longrightarrow>
         emitted (trace s_out) = emitted (trace s_in) @
           [(key, if fst (download_step w url lp s_in) = Inr True \<or>
                     fst (download_step w url lp s_in) = Inr False \<and>
                     fst (rawg_step w self name lp (snd (download_step w url lp s_in))) = Inr True
                  then lp else [])]))"
proof (intro conjI impI)
  assume "os_path_exists (files s) (local_path_for self key)"
  then show "fetch self key name url s = (None, log (Emit key (local_path_for self key)) s)"
    and "emitted (trace (snd (fetch self key name url s)))
           = emitted (trace s) @ [(key, local_path_for self key)]"
    by (simp_all add: fetch_def trace_log emitted_append)
next
  assume "\<not> os_path_exists (files s) (local_path_for self key)"
  then show "fetch self key name url s
               = (Some (Worker key name url (local_path_for self key)), s)"
    by (simp add: fetch_def)
next
  assume "run_task w self (Worker key name url lp) s_in = (r, s_out)"
  then have "worker w self key name url lp s_in = (r, s_out)" by simp
  then show "\<exists>n. emitted (trace s_out) = emitted (trace s_in) @ n \<and> length n \<le> 1 \<and>
                 set (map fst n) \<subseteq> {key}"
    by (rule worker_at_most_one)
next
  assume "run_task w self (Worker key name url lp) s_in = (r, s_out)" and "r = None"
  then have "worker w self key name url lp s_in = (None, s_out)" by simp
  then show "emitted (trace s_out) = emitted (trace s_in) @
           [(key, if fst (download_step w url lp s_in) = Inr True \<or>
                     fst (download_step w url lp s_in) = Inr False \<and>
                     fst (rawg_step w self name lp (snd (download_step w url lp s_in))) = Inr True
                  then lp else [])]"
    by (rule worker_returns)
qed

text \<open>A request that is not in the cache and whose download succeeds.\<close>

theorem C1_witness:
  "fetch example_fetcher ''NES::Foo'' ''Foo'' (JStr ''http://example.org/foo.png'') empty_state
     = (Some (Worker ''NES::Foo'' ''Foo'' (JStr ''http://example.org/foo.png'')
                ''resources/covers/NES__Foo.png''), empty_state) \<and>
   fst (run_task world_ok example_fetcher
          (Worker ''NES::Foo'' ''Foo'' (JStr ''http://example.org/foo.png'')
             ''resources/covers/NES__Foo.png'') empty_state) = None \<and>
   emitted (trace (snd (run_task world_ok example_fetcher
          (Worker ''NES::Foo'' ''Foo'' (JStr ''http://example.org/foo.png'')
             ''resources/covers/NES__Foo.png'') empty_state)))
     = [(''NES::Foo'', ''resources/covers/NES__Foo.png'')]"
proof -
  let ?url = "JStr ''http://example.org/foo.png''"
  let ?lp = "''resources/covers/NES__Foo.png''"
  let ?run = "run_task world_ok example_fetcher (Worker ''NES::Foo'' ''Foo'' ?url ?lp) empty_state"
  note inst = C1_one_result_per_returning_request
               [where s = empty_state and self = example_fetcher and key = "''NES::Foo''"
                  and name = "''Foo''" and url = ?url and w = world_ok and lp = ?lp
                  and s_in = empty_state and r = "fst ?run" and s_out = "snd ?run"]
  have lp: "local_path_for example_fetcher ''NES::Foo'' = ?lp" by code_simp
  have absent: "\<not> os_path_exists (files empty_state) (local_path_for example_fetcher ''NES::Foo'')"
    by code_simp
  have ret: "fst ?run = None" by code_simp
  have ok: "fst (download_step world_ok ?url ?lp empty_state) = Inr True" by code_simp
  have start: "emitted (trace empty_state) = []" by code_simp
  have run: "?run = (fst ?run, snd ?run)" by simp
  from inst absent lp have f: "fetch example_fetcher ''NES::Foo'' ''Foo'' ?url empty_state
     = (Some (Worker ''NES::Foo'' ''Foo'' ?url ?lp), empty_state)"
    by simp
  from inst run ret have "emitted (trace (snd ?run)) = emitted (trace empty_state) @
           [(''NES::Foo'', if fst (download_step world_ok ?url ?lp empty_state) = Inr True \<or>
                     fst (download_step world_ok ?url ?lp empty_state) = Inr False \<and>
                     fst (rawg_step world_ok example_fetcher ''Foo'' ?lp
                            (snd (download_step world_ok ?url ?lp empty_state))) = Inr True
                  then ?lp else [])]"
    by blast
  with ok start have "emitted (trace (snd ?run)) = [(''NES::Foo'', ?lp)]" by simp
  with f ret show ?thesis by (simp only: simp_thms)
qed

text \<open>
  C1 as stated fails: the download succeeds, \<open>os.replace\<close> raises \<open>OSError\<close>, which
  \<open>_try_download\<close> does not catch; the thread ends with it and no signal is delivered.
\<close>

theorem C1_counterexample:
  "fst (request world_rename_denied example_fetcher ''NES::Foo'' ''Foo''
          (JStr ''http://example.org/foo.png'') empty_state) = Some (OSError ''Permission denied'') \<and>
   emitted (trace (snd (request world_rename_denied example_fetcher ''NES::Foo'' ''Foo''
          (JStr ''http://example.org/foo.png'') empty_state))) = []"
  by code_simp

lemma try_download_catches:
  "try_download w url lp s =
     (case download_body w url lp s of
        (Inl e, s') \<Rightarrow> catch_request e s'
      | (Inr ok, s') \<Rightarrow> (Inr ok, s'))"
  by (simp add: try_download_def download_body_def Let_def
           split: sum.splits option.splits prod.splits)

lemma try_fetch_from_rawg_catches:
  "try_fetch_from_rawg w self name lp s =
     (case rawg_body w self name lp s of
        (Inl e, s') \<Rightarrow> catch_request e s'
      | (Inr ok, s') \<Rightarrow> (Inr ok, s'))"
proof -
  define u where
    "u = JStr (''https://api.rawg.io/api/games?search='' @ quote_plus w name @
               ''&page_size=1&key='' @ api_key self)"
  show ?thesis
    unfolding try_fetch_from_rawg_def rawg_body_def Let_def u_def [symmetric]
    by (auto split: sum.splits option.splits prod.splits)
qed

text \<open>
  C2 (as amended). An exception of the class \<open>requests.exceptions.RequestException\<close>
  raised by any statement of a step (the GET, its status check, opening, writing and renaming
  the file, the streaming of the body, the query of the metadata API, its status check and
  the decoding of its answer) is caught inside the step, which then returns \<open>False\<close>; no
  such exception leaves \<open>_try_download\<close>, \<open>_try_fetch_from_rawg\<close> or the worker.
\<close>

theorem C2_request_exceptions_are_caught:
  "(download_body w url lp s = (Inl e, s') \<and> is_RequestException e \<longrightarrow>
      try_download w url lp s = (Inr False, s')) \<and>
   (rawg_body w self name lp s = (Inl e, s') \<and> is_RequestException e \<longrightarrow>
      try_fetch_from_rawg w self name lp s = (Inr False, s')) \<and>
   (requests_get w (clock s) url 10 True = Inl (RequestException m) \<longrightarrow>
      try_download w url lp s = (Inr False, log (HttpGet url 10 True) s)) \<and>
   (requests_get w (clock s) url 10 True = Inr resp \<and>
    400 \<le> status_code resp \<and> status_code resp < 600 \<longrightarrow>
      try_download w url lp s = (Inr False, log (HttpGet url 10 True) s)) \<and>
   (requests_get w (clock s)
      (JStr (''https://api.rawg.io/api/games?search='' @ quote_plus w name @
             ''&page_size=1&key='' @ api_key self)) 8 False = Inl (RequestException m) \<longrightarrow>
      fst (try_fetch_from_rawg w self name lp s) = Inr False) \<and>
   (requests_get w (clock s)
      (JStr (''https://api.rawg.io/api/games?search='' @ quote_plus w name @
             ''&page_size=1&key='' @ api_key self)) 8 False = Inr resp \<and>
    (400 \<le> status_code resp \<and> status_code resp < 600 \<or>
     raise_for_status resp = None \<and> json_body resp = Inl (RequestException m)) \<longrightarrow>
      fst (try_fetch_from_rawg w self name lp s) = Inr False) \<and>
   (try_download w url lp s = (Inl e, s') \<longrightarrow> \<not> is_RequestException e) \<and>
   (try_fetch_from_rawg w self name lp s = (Inl e, s') \<longrightarrow> \<not> is_RequestException e) \<and>
   (worker w self key name url lp s = (Some e, s') \<longrightarrow> \<not> is_RequestException e)"
proof (intro conjI impI)
  assume "download_body w url lp s = (Inl e, s') \<and> is_RequestException e"
  then show "try_download w url lp s = (Inr False, s')"
    by (simp add: try_download_catches catch_request_def)
next
  assume "rawg_body w self name lp s = (Inl e, s') \<and> is_RequestException e"
  then show "try_fetch_from_rawg w self name lp s = (Inr False, s')"
    by (simp add: try_fetch_from_rawg_catches catch_request_def)
next
  assume "requests_get w (clock s) url 10 True = Inl (RequestException m)"
  then show "try_download w url lp s = (Inr False, log (HttpGet url 10 True) s)"
    by (simp add: try_download_def catch_request_def)
next
  assume "requests_get w (clock s) url 10 True = Inr resp \<and>
          400 \<le> status_code resp \<and> status_code resp < 600"
  then show "try_download w url lp s = (Inr False, log (HttpGet url 10 True) s)"
    by (simp add: try_download_def catch_request_def raise_for_status_def)
next
  assume "requests_get w (clock s)
      (JStr (''https://api.rawg.io/api/games?search='' @ quote_plus w name @
             ''&page_size=1&key='' @ api_key self)) 8 False = Inl (RequestException m)"
  then show "fst (try_fetch_from_rawg w self name lp s) = Inr False"
    by (simp add: try_fetch_from_rawg_def catch_request_def)
next
  assume "requests_get w (clock s)
      (JStr (''https://api.rawg.io/api/games?search='' @ quote_plus w name @
             ''&page_size=1&key='' @ api_key self)) 8 False = Inr resp \<and>
    (400 \<le> status_code resp \<and> status_code resp < 600 \<or>
     raise_for_status resp = None \<and> json_body resp = Inl (RequestException m))"
  then show "fst (try_fetch_from_rawg w self name lp s) = Inr False"
    by (auto simp: try_fetch_from_rawg_def catch_request_def raise_for_status_def)
next
  assume "try_download w url lp s = (Inl e, s')"
  then show "\<not> is_RequestException e" by (rule try_download_Inl)
next
  assume "try_fetch_from_rawg w self name lp s = (Inl e, s')"
  then show "\<not> is_RequestException e" by (rule try_fetch_from_rawg_Inl)
next
  assume "worker w self key name url lp s = (Some e, s')"
  from worker_effect [OF this] show "\<not> is_RequestException e" by auto
qed

text \<open>
  A connection that times out, for the direct download and for the metadata API: both steps
  return \<open>False\<close> and the worker reports the empty path.
\<close>

theorem C2_witness:
  "download_body world_timeout (JStr ''http://example.org/foo.png'')
       ''resources/covers/NES__Foo.png'' empty_state
     = (Inl (RequestException ''ConnectTimeout''),
        log (HttpGet (JStr ''http://example.org/foo.png'') 10 True) empty_state) \<and>
   try_download world_timeout (JStr ''http://example.org/foo.png'')
       ''resources/covers/NES__Foo.png'' empty_state
     = (Inr False, log (HttpGet (JStr ''http://example.org/foo.png'') 10 True) empty_state) \<and>
   fst (rawg_body world_timeout example_fetcher_with_key ''Foo''
          ''resources/covers/NES__Foo.png'' empty_state)
     = Inl (RequestException ''ConnectTimeout'') \<and>
   fst (try_fetch_from_rawg world_timeout example_fetcher_with_key ''Foo''
          ''resources/covers/NES__Foo.png'' empty_state) = Inr False \<and>
   emitted (trace (snd (worker world_timeout example_fetcher_with_key ''NES::Foo'' ''Foo''
       (JStr ''http://example.org/foo.png'') ''resources/covers/NES__Foo.png'' empty_state)))
     = [(''NES::Foo'', [])]"
proof -
  let ?url = "JStr ''http://example.org/foo.png''"
  let ?lp = "''resources/covers/NES__Foo.png''"
  let ?g = "rawg_body world_timeout example_fetcher_with_key ''Foo'' ?lp empty_state"
  have body: "download_body world_timeout ?url ?lp empty_state
                = (Inl (RequestException ''ConnectTimeout''), log (HttpGet ?url 10 True) empty_state)"
    by (simp add: download_body_def world_timeout_def world_ok_def)
  have re: "is_RequestException (RequestException ''ConnectTimeout'')" by simp
  from C2_request_exceptions_are_caught
         [where w = world_timeout and url = ?url and lp = ?lp and s = empty_state
            and e = "RequestException ''ConnectTimeout''"
            and s' = "log (HttpGet ?url 10 True) empty_state"] body re
  have dl: "try_download world_timeout ?url ?lp empty_state
              = (Inr False, log (HttpGet ?url 10 True) empty_state)"
    by blast
  have gb: "fst ?g = Inl (RequestException ''ConnectTimeout'')" by code_simp
  then have "?g = (Inl (RequestException ''ConnectTimeout''), snd ?g)"
    by (simp add: prod_eq_iff)
  with C2_request_exceptions_are_caught
         [where w = world_timeout and self = example_fetcher_with_key and name = "''Foo''"
            and lp = ?lp and s = empty_state and e = "RequestException ''ConnectTimeout''"
            and s' = "snd ?g"] re
  have "try_fetch_from_rawg world_timeout example_fetcher_with_key ''Foo'' ?lp empty_state
          = (Inr False, snd ?g)"
    by blast
  then have gr: "fst (try_fetch_from_rawg world_timeout example_fetcher_with_key ''Foo'' ?lp
                        empty_state) = Inr False"
    by simp
  have em: "emitted (trace (snd (worker world_timeout example_fetcher_with_key ''NES::Foo''
                ''Foo'' ?url ?lp empty_state))) = [(''NES::Foo'', [])]"
    by code_simp
  from body dl gb gr em show ?thesis by (simp only: simp_thms)
qed

text \<open>
  C2 as stated fails: writing the temporary file raises \<open>OSError\<close> (disk full), and the
  exception leaves the worker.
\<close>

theorem C2_counterexample:
  "fst (worker world_disk_full example_fetcher ''NES::Foo'' ''Foo''
          (JStr ''http://example.org/foo.png'') ''resources/covers/NES__Foo.png'' empty_state)
     = Some (OSError ''No space left on device'')"
  by code_simp

text \<open>
  C3. When the cover of the key is already on disk, \<open>fetch\<close> emits \<open>image_ready\<close> with
  the cached path before it returns, makes no network call and starts no worker.
\<close>

theorem C3_cached_is_synchronous:
  assumes "os_path_exists (files s) (local_path_for self key)"
  shows "fetch self key name url s = (None, log (Emit key (local_path_for self key)) s) \<and>
         request w self key name url s = (None, log (Emit key (local_path_for self key)) s) \<and>
         emitted (trace (snd (fetch self key name url s)))
           = emitted (trace s) @ [(key, local_path_for self key)] \<and>
         http_gets (trace (snd (fetch self key name url s))) = http_gets (trace s)"
  using assms
  by (simp add: fetch_def request_def trace_log emitted_append http_gets_append)

text \<open>A request for a key whose cover is in the cache.\<close>

theorem C3_witness:
  "os_path_exists (files cached_state) (local_path_for example_fetcher ''NES::Foo'') \<and>
   fetch example_fetcher ''NES::Foo'' ''Foo'' (JStr ''http://example.org/foo.png'') cached_state
     = (None, log (Emit ''NES::Foo'' ''resources/covers/NES__Foo.png'') cached_state)"
proof -
  have lp: "local_path_for example_fetcher ''NES::Foo'' = ''resources/covers/NES__Foo.png''"
    by code_simp
  have ex: "os_path_exists (files cached_state) (local_path_for example_fetcher ''NES::Foo'')"
    by code_simp
  from C3_cached_is_synchronous [OF ex] lp ex show ?thesis by simp
qed

lemma try_download_api:
  assumes "try_download w url lp s = (r, s1)"
  shows "api_queries (trace s1) = api_queries (trace s)"
proof -
  from try_download_trace [OF assms] obtain evs where
    "trace s1 = trace s @ HttpGet url 10 True # evs" "list_all is_file_event evs" by blast
  then show ?thesis using file_events_silent [of evs] by (simp add: api_queries_append)
qed

lemma worker_without_key:
  assumes "api_key self = []"
  shows "api_queries (trace (snd (worker w self key name url lp s))) = api_queries (trace s)"
proof (cases "truthy url")
  case False
  with assms show ?thesis by (simp add: worker_def trace_log api_queries_append)
next
  case True
  obtain r1 s1 where d: "try_download w url lp s = (r1, s1)"
    by (cases "try_download w url lp s")
  from try_download_api [OF d] have "api_queries (trace s1) = api_queries (trace s)" .
  with True d assms show ?thesis
    by (cases r1) (simp_all add: worker_def trace_log api_queries_append)
qed

lemma worker_starts_with_download:
  assumes "truthy url"
  shows "\<exists>evs. trace (snd (worker w self key name url lp s)) = trace s @ HttpGet url 10 True # evs"
proof -
  obtain r1 s1 where d: "try_download w url lp s = (r1, s1)"
    by (cases "try_download w url lp s")
  from try_download_trace [OF d] obtain evs1 where
    t1: "trace s1 = trace s @ HttpGet url 10 True # evs1" by blast
  obtain r2 s2 where g: "try_fetch_from_rawg w self name lp s1 = (r2, s2)"
    by (cases "try_fetch_from_rawg w self name lp s1")
  from try_fetch_from_rawg_trace [OF g] obtain u evs2 where
    t2: "trace s2 = trace s1 @ HttpGet (JStr u) 8 False # evs2" by blast
  have "\<exists>evs. trace (snd (worker w self key name url lp s)) = trace s1 @ evs"
    using assms d g t2
    by (cases r1; cases r2) (auto simp: worker_def trace_log)
  with t1 show ?thesis by auto
qed

text \<open>
  C4 (as amended). The worker takes its steps in order. With a URL, the direct download
  comes first; if it succeeds the path is emitted and the metadata API is not queried. If
  the URL is absent, or its download returns \<open>False\<close>, and the API key is empty, the
  empty path is emitted. With an empty API key the metadata API is never queried.
\<close>

theorem C4_strict_order:
  "(truthy url \<and> try_download w url lp s = (Inr True, t) \<longrightarrow>
      worker w self key name url lp s = (None, log (Emit key lp) t) \<and>
      api_queries (trace (snd (worker w self key name url lp s))) = api_queries (trace s)) \<and>
   ((\<not> truthy url \<and> t = s \<or> truthy url \<and> try_download w url lp s = (Inr False, t)) \<and>
    api_key self = [] \<longrightarrow>
      worker w self key name url lp s = (None, log (Emit key []) t) \<and>
      api_queries (trace (snd (worker w self key name url lp s))) = api_queries (trace s)) \<and>
   (api_key self = [] \<longrightarrow>
      api_queries (trace (snd (worker w self key name url lp s))) = api_queries (trace s)) \<and>
   (truthy url \<longrightarrow>
      (\<exists>evs. trace (snd (worker w self key name url lp s))
                = trace s @ HttpGet url 10 True # evs))"
proof (intro conjI impI)
  assume a: "truthy url \<and> try_download w url lp s = (Inr True, t)"
  then show "worker w self key name url lp s = (None, log (Emit key lp) t)"
    by (simp add: worker_first_ok)
  with a show "api_queries (trace (snd (worker w self key name url lp s)))
                 = api_queries (trace s)"
    using try_download_api [of w url lp s "Inr True" t]
    by (simp add: trace_log api_queries_append)
next
  assume b: "(\<not> truthy url \<and> t = s \<or> truthy url \<and> try_download w url lp s = (Inr False, t)) \<and>
             api_key self = []"
  then show "worker w self key name url lp s = (None, log (Emit key []) t)"
    by (simp add: worker_no_key)
  from b show "api_queries (trace (snd (worker w self key name url lp s)))
                 = api_queries (trace s)"
    by (simp add: worker_without_key)
next
  assume "api_key self = []"
  then show "api_queries (trace (snd (worker w self key name url lp s)))
               = api_queries (trace s)"
    by (rule worker_without_key)
next
  assume "truthy url"
  then show "\<exists>evs. trace (snd (worker w self key name url lp s))
                      = trace s @ HttpGet url 10 True # evs"
    by (rule worker_starts_with_download)
qed

text \<open>
  A successful direct download, a request without URL and without API key, and a download
  that times out without API key.
\<close>

theorem C4_witness:
  "truthy (JStr ''http://example.org/foo.png'') \<and>
   fst (try_download world_ok (JStr ''http://example.org/foo.png'')
          ''resources/covers/NES__Foo.png'' empty_state) = Inr True \<and>
   emitted (trace (snd (worker world_ok example_fetcher ''NES::Foo'' ''Foo''
       (JStr ''http://example.org/foo.png'') ''resources/covers/NES__Foo.png'' empty_state)))
     = [(''NES::Foo'', ''resources/covers/NES__Foo.png'')] \<and>
   api_queries (trace (snd (worker world_ok example_fetcher ''NES::Foo'' ''Foo''
       (JStr ''http://example.org/foo.png'') ''resources/covers/NES__Foo.png'' empty_state)))
     = [] \<and>
   \<not> truthy JNull \<and> api_key example_fetcher = [] \<and>
   worker world_ok example_fetcher ''NES::Foo'' ''Foo'' JNull
       ''resources/covers/NES__Foo.png'' empty_state
     = (None, log (Emit ''NES::Foo'' []) empty_state) \<and>
   try_download world_timeout (JStr ''http://example.org/foo.png'')
       ''resources/covers/NES__Foo.png'' empty_state
     = (Inr False, log (HttpGet (JStr ''http://example.org/foo.png'') 10 True) empty_state) \<and>
   worker world_timeout example_fetcher ''NES::Foo'' ''Foo'' (JStr ''http://example.org/foo.png'')
       ''resources/covers/NES__Foo.png'' empty_state
     = (None, log (Emit ''NES::Foo'' [])
                (log (HttpGet (JStr ''http://example.org/foo.png'') 10 True) empty_state))"
proof -
  let ?url = "JStr ''http://example.org/foo.png''"
  let ?lp = "''resources/covers/NES__Foo.png''"
  let ?d = "try_download world_ok ?url ?lp empty_state"
  have ok: "fst ?d = Inr True" by code_simp
  have "?d = (fst ?d, snd ?d)" by simp
  with ok have d: "truthy ?url \<and> ?d = (Inr True, snd ?d)"
    by simp
  have e: "emitted (trace (snd ?d)) = []" "api_queries (trace empty_state) = []"
    by code_simp+
  have k: "api_key example_fetcher = []" by (simp add: example_fetcher_def)
  from C4_strict_order [where w = world_ok and url = ?url and lp = ?lp and s = empty_state
                          and t = "snd ?d" and self = example_fetcher
                          and key = "''NES::Foo''" and name = "''Foo''"] d
  have first: "worker world_ok example_fetcher ''NES::Foo'' ''Foo'' ?url ?lp empty_state
                 = (None, log (Emit ''NES::Foo'' ?lp) (snd ?d))"
    "api_queries (trace (snd (worker world_ok example_fetcher ''NES::Foo'' ''Foo'' ?url ?lp
                                 empty_state))) = api_queries (trace empty_state)"
    by blast+
  from C4_strict_order [where w = world_ok and url = JNull and lp = ?lp and s = empty_state
                          and t = empty_state and self = example_fetcher
                          and key = "''NES::Foo''" and name = "''Foo''"] k
  have second: "worker world_ok example_fetcher ''NES::Foo'' ''Foo'' JNull ?lp empty_state
                  = (None, log (Emit ''NES::Foo'' []) empty_state)"
    by simp
  have timeout: "try_download world_timeout ?url ?lp empty_state
                   = (Inr False, log (HttpGet ?url 10 True) empty_state)"
    by (simp add: try_download_def catch_request_def world_timeout_def world_ok_def)
  from C4_strict_order [where w = world_timeout and url = ?url and lp = ?lp and s = empty_state
                          and t = "log (HttpGet ?url 10 True) empty_state"
                          and self = example_fetcher
                          and key = "''NES::Foo''" and name = "''Foo''"] k timeout
  have third: "worker world_timeout example_fetcher ''NES::Foo'' ''Foo'' ?url ?lp empty_state
                 = (None, log (Emit ''NES::Foo'' []) (log (HttpGet ?url 10 True) empty_state))"
    by simp
  from first e have "emitted (trace (snd (worker world_ok example_fetcher ''NES::Foo'' ''Foo''
                       ?url ?lp empty_state))) = [(''NES::Foo'', ?lp)]"
      and "api_queries (trace (snd (worker world_ok example_fetcher ''NES::Foo'' ''Foo''
                       ?url ?lp empty_state))) = []"
    by (simp_all add: trace_log emitted_append)
  with ok second third timeout k show ?thesis by simp
qed

text \<open>
  C4 as stated fails: the URL's download fails because the temporary file cannot be opened
  (\<open>OSError\<close>, not caught), the API key is empty, and no failure is reported.
\<close>

theorem C4_counterexample:
  "truthy (JStr ''http://example.org/foo.png'') \<and>
   api_key example_fetcher = [] \<and>
   fst (try_download world_read_only (JStr ''http://example.org/foo.png'')
          ''resources/covers/NES__Foo.png'' empty_state)
     = Inl (OSError ''[Errno 30] Read-only file system'') \<and>
   fst (worker world_read_only example_fetcher ''NES::Foo'' ''Foo''
          (JStr ''http://example.org/foo.png'') ''resources/covers/NES__Foo.png'' empty_state)
     = Some (OSError ''[Errno 30] Read-only file system'') \<and>
   emitted (trace (snd (worker world_read_only example_fetcher ''NES::Foo'' ''Foo''
          (JStr ''http://example.org/foo.png'') ''resources/covers/NES__Foo.png'' empty_state)))
     = []"
  by code_simp

lemma safe_char_class:
  "(isalnum c \<or> c \<in> {CHR ''_'', CHR ''-'', CHR ''.''}) =
     (spec_class c \<or> 128 \<le> ord c \<and> isalnum c)"
proof (cases c)
  case (Char b0 b1 b2 b3 b4 b5 b6 b7)
  show ?thesis
    unfolding Char
    by (cases b0; cases b1; cases b2; cases b3; cases b4; cases b5; cases b6; cases b7;
        simp add: isalnum_def ord_def spec_class_def Let_def)
qed

text \<open>
  C5 (as amended). The cache path is \<open>covers_dir\<close> joined with the key, in which every
  character that is neither in \<open>[A-Za-z0-9_.-]\<close> nor a non-ASCII alphanumeric character
  (\<open>str.isalnum\<close>) is replaced by an underscore, followed by \<open>.png\<close>. For a key of ASCII
  characters this is the path of the specification.
\<close>

theorem C5_local_path_for:
  "local_path_for self key =
     os_path_join (covers_dir self)
       (map (\<lambda>c. if spec_class c \<or> 128 \<le> ord c \<and> isalnum c then c else CHR ''_'') key
        @ ''.png'') \<and>
   ((\<forall>c \<in> set key. ord c < 128) \<longrightarrow>
      local_path_for self key = spec_path_for (covers_dir self) key)"
proof
  show general: "local_path_for self key =
     os_path_join (covers_dir self)
       (map (\<lambda>c. if spec_class c \<or> 128 \<le> ord c \<and> isalnum c then c else CHR ''_'') key
        @ ''.png'')"
    by (simp only: local_path_for_def safe_key_def safe_char_class)
  show "(\<forall>c \<in> set key. ord c < 128) \<longrightarrow>
          local_path_for self key = spec_path_for (covers_dir self) key"
  proof
    assume "\<forall>c \<in> set key. ord c < 128"
    then have "map (\<lambda>c. if spec_class c \<or> 128 \<le> ord c \<and> isalnum c then c else CHR ''_'') key
             = map (\<lambda>c. if spec_class c then c else CHR ''_'') key"
      by (intro map_cong) auto
    with general show "local_path_for self key = spec_path_for (covers_dir self) key"
      by (simp add: spec_path_for_def)
  qed
qed

text \<open>An ASCII key.\<close>

theorem C5_witness:
  "list_all (\<lambda>c. ord c < 128) ''NES::Super Mario Bros. 3'' \<and>
   local_path_for example_fetcher ''NES::Super Mario Bros. 3''
     = ''resources/covers/NES__Super_Mario_Bros._3.png''"
proof -
  have ascii: "\<forall>c \<in> set ''NES::Super Mario Bros. 3''. ord c < 128"
    by code_simp
  have sp: "spec_path_for (covers_dir example_fetcher) ''NES::Super Mario Bros. 3''
          = ''resources/covers/NES__Super_Mario_Bros._3.png''"
    by code_simp
  from C5_local_path_for [of example_fetcher "''NES::Super Mario Bros. 3''"] ascii
  have "local_path_for example_fetcher ''NES::Super Mario Bros. 3''
          = spec_path_for (covers_dir example_fetcher) ''NES::Super Mario Bros. 3''"
    by blast
  moreover have "list_all (\<lambda>c. ord c < 128) ''NES::Super Mario Bros. 3''"
    by code_simp
  ultimately show ?thesis using sp by (simp only: simp_thms)
qed

text \<open>
  C5 as stated fails for the key "Pok" + U+00E9 + "mon": the letter U+00E9 is alphanumeric for
  \<open>str.isalnum\<close> and is kept, while it is outside \<open>[A-Za-z0-9_.-]\<close>.
\<close>

theorem C5_counterexample:
  "local_path_for example_fetcher (''Pok'' @ [CHR 0xE9] @ ''mon'')
     = ''resources/covers/Pok'' @ [CHR 0xE9] @ ''mon.png'' \<and>
   spec_path_for (covers_dir example_fetcher) (''Pok'' @ [CHR 0xE9] @ ''mon'')
     = ''resources/covers/Pok_mon.png''"
  by code_simp

section \<open>Properties of launcher.py\<close>

lemma exists_nonempty: "os_path_exists fs p \<Longrightarrow> p \<noteq> []"
  by (auto simp: os_path_exists_def stat_def)

lemma fallback_missing: "stat fs d = None \<Longrightarrow> fst (fallback fs d) = Inr None"
  by (simp add: fallback_def os_listdir_def)

text \<open>
  C6. A configured path that exists is returned at once, before the \<open>emulators\<close> folder is
  looked at; a configured path that does not exist is skipped, the search going on as if
  nothing were configured; and when no configured path exists and there is no \<open>emulators\<close>
  folder the result is \<open>None\<close>, not an exception.
\<close>

theorem C6_configured_path_first:
  "(configured cfg console = Some em \<and> os_path_exists fs em \<longrightarrow>
      find_emulator fs cfg console = (Inr (Some em), [Exists em])) \<and>
   (configured cfg console = Some em \<and> \<not> os_path_exists fs em \<longrightarrow>
      fst (find_emulator fs cfg console)
        = fst (find_emulator fs \<lparr>emulators = None\<rparr> console)) \<and>
   ((\<forall>p. configured cfg console = Some p \<longrightarrow> \<not> os_path_exists fs p) \<and>
    stat fs ''emulators'' = None \<longrightarrow>
      fst (find_emulator fs cfg console) = Inr None)"
proof (intro conjI impI)
  assume "configured cfg console = Some em \<and> os_path_exists fs em"
  then show "find_emulator fs cfg console = (Inr (Some em), [Exists em])"
    using exists_nonempty [of fs em] by (simp add: find_emulator_def)
next
  assume "configured cfg console = Some em \<and> \<not> os_path_exists fs em"
  then show "fst (find_emulator fs cfg console)
               = fst (find_emulator fs \<lparr>emulators = None\<rparr> console)"
    by (simp add: find_emulator_def configured_def Let_def
             split: sum.splits prod.splits option.splits)
next
  assume a: "(\<forall>p. configured cfg console = Some p \<longrightarrow> \<not> os_path_exists fs p) \<and>
             stat fs ''emulators'' = None"
  then have nodir: "\<not> os_path_isdir fs ''emulators''"
    by (simp add: os_path_isdir_def)
  from a have "fst (fallback fs ''emulators'') = Inr None"
    by (simp add: fallback_missing)
  with a nodir show "fst (find_emulator fs cfg console) = Inr None"
    by (cases "configured cfg console")
       (auto simp: find_emulator_def Let_def split: prod.splits)
qed


text \<open>
  The console NES with its configured emulator present, and the console GBA with a
  configured path that is missing and no \<open>emulators\<close> folder.
\<close>

theorem C6_witness:
  "configured example_config ''NES'' = Some ''emu/nestopia'' \<and>
   os_path_exists example_fs ''emu/nestopia'' \<and>
   find_emulator example_fs example_config ''NES''
     = (Inr (Some ''emu/nestopia''), [Exists ''emu/nestopia'']) \<and>
   configured example_config ''GBA'' = Some ''emu/vba'' \<and>
   \<not> os_path_exists (example_fs(''emulators'' := None)) ''emu/vba'' \<and>
   stat (example_fs(''emulators'' := None)) ''emulators'' = None \<and>
   fst (find_emulator (example_fs(''emulators'' := None)) example_config ''GBA'') = Inr None"
proof -
  have c1: "configured example_config ''NES'' = Some ''emu/nestopia''"
    and e1: "os_path_exists example_fs ''emu/nestopia''"
    and c2: "configured example_config ''GBA'' = Some ''emu/vba''"
    and e2: "\<not> os_path_exists (example_fs(''emulators'' := None)) ''emu/vba''"
    and d2: "stat (example_fs(''emulators'' := None)) ''emulators'' = None"
    by code_simp+
  from C6_configured_path_first
         [where cfg = example_config and console = "''NES''" and em = "''emu/nestopia''"
            and fs = example_fs] c1 e1
  have first: "find_emulator example_fs example_config ''NES''
                 = (Inr (Some ''emu/nestopia''), [Exists ''emu/nestopia''])"
    by blast
  from C6_configured_path_first
         [where cfg = example_config and console = "''GBA''"
            and fs = "example_fs(''emulators'' := None)"] c2 e2 d2
  have "fst (find_emulator (example_fs(''emulators'' := None)) example_config ''GBA'') = Inr None"
    by simp
  with first c1 e1 c2 e2 d2 show ?thesis by (simp only: simp_thms)
qed

lemma contains_empty: "contains s []"
  by (cases s) (simp_all add: startswith_def)

lemma scan_empty_console:
  "fst (scan fs d [] names)
     = map_option (os_path_join d) (find (\<lambda>n. os_path_isfile fs (os_path_join d n)) names)"
  by (induction names) (auto simp: lower_def contains_empty Let_def split: prod.splits)

lemma find_emulator_after_config:
  assumes "\<forall>p. configured cfg console = Some p \<longrightarrow> \<not> os_path_exists fs p"
      and "stat fs ''emulators'' = Some (Dir names)"
  shows "fst (find_emulator fs cfg console) =
           (case fst (scan fs ''emulators'' console names) of
              Some candidate \<Rightarrow> Inr (Some candidate)
            | None \<Rightarrow> fst (fallback fs ''emulators''))"
proof -
  from assms(2) have d: "os_path_isdir fs ''emulators''"
    "os_listdir fs ''emulators'' = Inr names"
    by (simp_all add: os_path_isdir_def os_listdir_def)
  from assms(1) have c: "\<not> (case configured cfg console of None \<Rightarrow> False
                              | Some p \<Rightarrow> p \<noteq> [] \<and> os_path_exists fs p)"
    by (cases "configured cfg console") simp_all
  show ?thesis
    using c d
    by (simp add: find_emulator_def Let_def split: prod.splits option.splits)
qed

lemma short_list_cases:
  assumes "length m < 4"
  obtains "m = []" | a where "m = [a]" | a b where "m = [a, b]" | a b c where "m = [a, b, c]"
proof (cases m)
  case Nil
  then show ?thesis using that by simp
next
  case (Cons a m1)
  note m = this
  show ?thesis
  proof (cases m1)
    case Nil
    with m show ?thesis using that by simp
  next
    case (Cons b m2)
    note m1 = this
    show ?thesis
    proof (cases m2)
      case Nil
      with m m1 show ?thesis using that by simp
    next
      case (Cons c m3)
      with m m1 assms have "m3 = []" by simp
      with m m1 Cons show ?thesis using that by simp
    qed
  qed
qed

lemma endswith_append: "length p \<le> length m \<Longrightarrow> endswith (a @ m) p = endswith m p"
  by (simp add: endswith_def)

lemma endswith_exe_in_folder: "endswith (''emulators/'' @ m) ''.exe'' = endswith m ''.exe''"
proof (cases "4 \<le> length m")
  case True
  then show ?thesis by (intro endswith_append) simp
next
  case False
  then have "length m < 4" by simp
  then show ?thesis
    by (cases m rule: short_list_cases) (simp_all add: endswith_def)
qed

lemma lower_append: "lower (a @ b) = lower a @ lower b"
  by (simp add: lower_def)

lemma lower_folder: "lower ''emulators/'' = ''emulators/''"
  by code_simp

lemma endswith_exe_joined:
  "endswith (lower (os_path_join ''emulators'' n)) ''.exe'' = endswith (lower n) ''.exe''"
proof (cases "startswith n ''/''")
  case True
  then show ?thesis by (simp add: os_path_join_def)
next
  case False
  have "\<not> endswith ''emulators'' ''/''" by code_simp
  with False have "os_path_join ''emulators'' n = ''emulators/'' @ n"
    by (simp add: os_path_join_def)
  then show ?thesis
    by (simp only: lower_append lower_folder endswith_exe_in_folder)
qed

lemma fallback_listing:
  assumes "stat fs ''emulators'' = Some (Dir names)"
  shows "fst (fallback fs ''emulators'') =
           (case filter (\<lambda>n. endswith (lower n) ''.exe'') names of
              [n] \<Rightarrow> Inr (Some (os_path_join ''emulators'' n))
            | _ \<Rightarrow> Inr None)"
proof -
  let ?names = "filter (\<lambda>n. endswith (lower n) ''.exe'') names"
  have exes: "filter (\<lambda>f. endswith (lower f) ''.exe'') (map (os_path_join ''emulators'') names)
                = map (os_path_join ''emulators'') ?names"
    by (simp only: filter_map o_def endswith_exe_joined)
  from assms have l: "os_listdir fs ''emulators'' = Inr names"
    by (simp add: os_listdir_def)
  show ?thesis
  proof (cases ?names)
    case Nil
    with l exes show ?thesis by (simp add: fallback_def Let_def)
  next
    case (Cons n rest)
    with l exes show ?thesis
      by (cases rest) (simp_all add: fallback_def Let_def)
  qed
qed

text \<open>
  C7. When no configured path exists and the scan of the \<open>emulators\<close> folder finds nothing,
  the result is decided by the names of the folder that end in \<open>.exe\<close>, whatever the case
  of the letters: exactly one such name gives that entry, whether or not it contains the
  console name; no such name, several of them, or no folder at all give \<open>None\<close>.
\<close>

theorem C7_single_exe_fallback:
  "((\<forall>p. configured cfg console = Some p \<longrightarrow> \<not> os_path_exists fs p) \<and>
    stat fs ''emulators'' = Some (Dir names) \<and>
    fst (scan fs ''emulators'' console names) = None \<longrightarrow>
      fst (find_emulator fs cfg console) =
        (case filter (\<lambda>n. endswith (lower n) ''.exe'') names of
           [n] \<Rightarrow> Inr (Some (os_path_join ''emulators'' n))
         | _ \<Rightarrow> Inr None)) \<and>
   ((\<forall>p. configured cfg console = Some p \<longrightarrow> \<not> os_path_exists fs p) \<and>
    stat fs ''emulators'' = None \<longrightarrow>
      fst (find_emulator fs cfg console) = Inr None)"
proof (intro conjI impI)
  assume a: "(\<forall>p. configured cfg console = Some p \<longrightarrow> \<not> os_path_exists fs p) \<and>
    stat fs ''emulators'' = Some (Dir names) \<and>
    fst (scan fs ''emulators'' console names) = None"
  then have "fst (find_emulator fs cfg console) = fst (fallback fs ''emulators'')"
    using find_emulator_after_config [of cfg console fs names] by simp
  with a show "fst (find_emulator fs cfg console) =
        (case filter (\<lambda>n. endswith (lower n) ''.exe'') names of
           [n] \<Rightarrow> Inr (Some (os_path_join ''emulators'' n))
         | _ \<Rightarrow> Inr None)"
    by (simp only: fallback_listing)
next
  assume a: "(\<forall>p. configured cfg console = Some p \<longrightarrow> \<not> os_path_exists fs p) \<and>
    stat fs ''emulators'' = None"
  then have nodir: "\<not> os_path_isdir fs ''emulators''"
    by (simp add: os_path_isdir_def)
  from a have "fst (fallback fs ''emulators'') = Inr None"
    by (simp add: fallback_missing)
  with a nodir show "fst (find_emulator fs cfg console) = Inr None"
    by (cases "configured cfg console")
       (auto simp: find_emulator_def Let_def split: prod.splits)
qed

text \<open>
  The console GBA: its configured path is missing, no name contains "gba", and the only
  executable, the one of another console, is returned.
\<close>

theorem C7_witness:
  "configured example_config ''GBA'' = Some ''emu/vba'' \<and>
   \<not> os_path_exists example_fs ''emu/vba'' \<and>
   stat example_fs ''emulators'' = Some (Dir [''readme.txt'', ''saves'', ''Nestopia.EXE'']) \<and>
   fst (scan example_fs ''emulators'' ''GBA'' [''readme.txt'', ''saves'', ''Nestopia.EXE'']) = None \<and>
   \<not> contains (lower ''Nestopia.EXE'') (lower ''GBA'') \<and>
   fst (find_emulator example_fs example_config ''GBA'') = Inr (Some ''emulators/Nestopia.EXE'')"
proof -
  let ?names = "[''readme.txt'', ''saves'', ''Nestopia.EXE'']"
  have c: "configured example_config ''GBA'' = Some ''emu/vba''"
    and e: "\<not> os_path_exists example_fs ''emu/vba''"
    and d: "stat example_fs ''emulators'' = Some (Dir ?names)"
    and sc: "fst (scan example_fs ''emulators'' ''GBA'' ?names) = None"
    and nm: "\<not> contains (lower ''Nestopia.EXE'') (lower ''GBA'')"
    by code_simp+
  from c e have c': "\<forall>p. configured example_config ''GBA'' = Some p
                        \<longrightarrow> \<not> os_path_exists example_fs p"
    by simp
  have v: "(case filter (\<lambda>n. endswith (lower n) ''.exe'') ?names of
              [n] \<Rightarrow> Inr (Some (os_path_join ''emulators'' n))
            | _ \<Rightarrow> Inr None) = (Inr (Some ''emulators/Nestopia.EXE'') :: exn + string option)"
    by code_simp
  from C7_single_exe_fallback
         [where cfg = example_config and console = "''GBA''" and fs = example_fs
            and names = ?names] c' d sc
  have "fst (find_emulator example_fs example_config ''GBA'') =
          (case filter (\<lambda>n. endswith (lower n) ''.exe'') ?names of
              [n] \<Rightarrow> Inr (Some (os_path_join ''emulators'' n))
            | _ \<Rightarrow> Inr None)"
    by blast
  with v c e d sc nm show ?thesis by (simp only: simp_thms)
qed

text \<open>
  C8. \<open>launch_and_watch\<close> tests its two paths before it starts anything. A missing
  emulator is reported with the dialog "Emulator Missing" and, the emulator being there, a
  missing ROM with the dialog "ROM Missing"; in both cases \<open>Popen\<close> is not called, no
  thread is started and \<open>None\<close> is returned. When \<open>Popen\<close> raises an \<open>OSError\<close> the
  report is a third dialog, "Launch Failed", whose text is the text of the error, and
  \<open>None\<close> is returned.
\<close>

theorem C8_launch_failures:
  "(\<not> os_path_exists fs emulator \<longrightarrow>
      launch_and_watch fs w emulator rom_path on_exit =
        (Inr None,
         [Critical ''Emulator Missing'' (''Emulator not found:'' @ [CHR 0x0A] @ emulator)],
         None)) \<and>
   (os_path_exists fs emulator \<and> \<not> os_path_exists fs rom_path \<longrightarrow>
      launch_and_watch fs w emulator rom_path on_exit =
        (Inr None,
         [Critical ''ROM Missing'' (''ROM file not found:'' @ [CHR 0x0A] @ rom_path)],
         None)) \<and>
   (\<not> os_path_exists fs emulator \<or> \<not> os_path_exists fs rom_path \<longrightarrow>
      fst (launch_and_watch fs w emulator rom_path on_exit) = Inr None \<and>
      spawned (fst (snd (launch_and_watch fs w emulator rom_path on_exit))) = [] \<and>
      snd (snd (launch_and_watch fs w emulator rom_path on_exit)) = None) \<and>
   (os_path_exists fs emulator \<and> os_path_exists fs rom_path \<and>
    popen w [emulator, rom_path] = Inl e \<and> is_OSError e \<longrightarrow>
      launch_and_watch fs w emulator rom_path on_exit =
        (Inr None,
         [Popen [emulator, rom_path], Critical ''Launch Failed'' (str_exn e)],
         None))"
  by (simp add: launch_and_watch_def)

text \<open>A missing emulator, a missing ROM, and an emulator that the system cannot run.\<close>

theorem C8_witness:
  "\<not> os_path_exists example_fs ''emu/vba'' \<and>
   launch_and_watch example_fs example_os ''emu/vba'' ''roms/mario.nes'' None =
     (Inr None,
      [Critical ''Emulator Missing'' (''Emulator not found:'' @ [CHR 0x0A] @ ''emu/vba'')],
      None) \<and>
   os_path_exists example_fs ''emu/nestopia'' \<and> \<not> os_path_exists example_fs ''roms/zelda.nes'' \<and>
   launch_and_watch example_fs example_os ''emu/nestopia'' ''roms/zelda.nes'' None =
     (Inr None,
      [Critical ''ROM Missing'' (''ROM file not found:'' @ [CHR 0x0A] @ ''roms/zelda.nes'')],
      None) \<and>
   os_path_exists example_fs ''roms/mario.nes'' \<and>
   popen example_os_noexec [''emu/nestopia'', ''roms/mario.nes'']
     = Inl (OSError ''[Errno 8] Exec format error'') \<and>
   launch_and_watch example_fs example_os_noexec ''emu/nestopia'' ''roms/mario.nes'' None =
     (Inr None,
      [Popen [''emu/nestopia'', ''roms/mario.nes''],
       Critical ''Launch Failed'' ''[Errno 8] Exec format error''],
      None)"
proof -
  have a: "\<not> os_path_exists example_fs ''emu/vba''"
    and b: "os_path_exists example_fs ''emu/nestopia''"
    and c: "\<not> os_path_exists example_fs ''roms/zelda.nes''"
    and d: "os_path_exists example_fs ''roms/mario.nes''"
    by code_simp+
  have p: "popen example_os_noexec [''emu/nestopia'', ''roms/mario.nes'']
             = Inl (OSError ''[Errno 8] Exec format error'')"
    by (simp add: example_os_noexec_def)
  have o: "is_OSError (OSError ''[Errno 8] Exec format error'')" by simp
  from C8_launch_failures
         [where fs = example_fs and w = example_os and emulator = "''emu/vba''"
            and rom_path = "''roms/mario.nes''" and on_exit = None] a
  have r1: "launch_and_watch example_fs example_os ''emu/vba'' ''roms/mario.nes'' None =
     (Inr None,
      [Critical ''Emulator Missing'' (''Emulator not found:'' @ [CHR 0x0A] @ ''emu/vba'')],
      None)"
    by blast
  from C8_launch_failures
         [where fs = example_fs and w = example_os and emulator = "''emu/nestopia''"
            and rom_path = "''roms/zelda.nes''" and on_exit = None] b c
  have r2: "launch_and_watch example_fs example_os ''emu/nestopia'' ''roms/zelda.nes'' None =
     (Inr None,
      [Critical ''ROM Missing'' (''ROM file not found:'' @ [CHR 0x0A] @ ''roms/zelda.nes'')],
      None)"
    by blast
  from C8_launch_failures
         [where fs = example_fs and w = example_os_noexec and emulator = "''emu/nestopia''"
            and rom_path = "''roms/mario.nes''" and on_exit = None
            and e = "OSError ''[Errno 8] Exec format error''"] b d p o
  have r3: "launch_and_watch example_fs example_os_noexec ''emu/nestopia'' ''roms/mario.nes'' None =
     (Inr None,
      [Popen [''emu/nestopia'', ''roms/mario.nes''],
       Critical ''Launch Failed'' (str_exn (OSError ''[Errno 8] Exec format error''))],
      None)"
    by blast
  have "str_exn (OSError ''[Errno 8] Exec format error'') = ''[Errno 8] Exec format error''"
    by simp
  with r3 have r3': "launch_and_watch example_fs example_os_noexec ''emu/nestopia'' ''roms/mario.nes'' None =
     (Inr None,
      [Popen [''emu/nestopia'', ''roms/mario.nes''],
       Critical ''Launch Failed'' ''[Errno 8] Exec format error''],
      None)"
    by (simp only:)
  from a b c d p r1 r2 r3' show ?thesis by (simp only: simp_thms)
qed

text \<open>
  C9. When both paths exist and \<open>Popen\<close> succeeds, \<open>launch_and_watch\<close> returns the process
  without waiting for it: the wait is made by the thread it started. When the process
  ends, that thread calls the callback once, with the code that \<open>wait\<close> returned.
\<close>

theorem C9_exit_callback_once:
  assumes "os_path_exists fs emulator" and "os_path_exists fs rom_path"
      and "popen w [emulator, rom_path] = Inr proc"
      and "proc_wait w proc = Some code"
  shows "launch_and_watch fs w emulator rom_path (Some cb) =
           (Inr (Some proc), [Popen [emulator, rom_path]], Some (Watcher proc (Some cb))) \<and>
         waits (fst (snd (launch_and_watch fs w emulator rom_path (Some cb)))) = [] \<and>
         watcher w (Watcher proc (Some cb)) = Some [Wait proc, OnExit cb code] \<and>
         map_option exit_codes (watcher w (Watcher proc (Some cb))) = Some [code]"
  using assms by (simp add: launch_and_watch_def)

text \<open>A game that ends with code 3.\<close>

theorem C9_witness:
  "os_path_exists example_fs ''emu/nestopia'' \<and> os_path_exists example_fs ''roms/mario.nes'' \<and>
   popen example_os [''emu/nestopia'', ''roms/mario.nes''] = Inr 4242 \<and>
   proc_wait example_os 4242 = Some 3 \<and>
   launch_and_watch example_fs example_os ''emu/nestopia'' ''roms/mario.nes'' (Some ''on_exit'') =
     (Inr (Some 4242), [Popen [''emu/nestopia'', ''roms/mario.nes'']],
      Some (Watcher 4242 (Some ''on_exit''))) \<and>
   watcher example_os (Watcher 4242 (Some ''on_exit'')) = Some [Wait 4242, OnExit ''on_exit'' 3]"
proof -
  have b: "os_path_exists example_fs ''emu/nestopia''"
    and d: "os_path_exists example_fs ''roms/mario.nes''"
    by code_simp+
  have p: "popen example_os [''emu/nestopia'', ''roms/mario.nes''] = Inr 4242"
    and q: "proc_wait example_os 4242 = Some 3"
    by (simp_all add: example_os_def)
  from C9_exit_callback_once [OF b d p q, of "''on_exit''"] b d p q
  show ?thesis by (simp only: simp_thms)
qed

text \<open>
  C10. The empty console name is a substring of every file name, so when no configured
  path applies, the scan of the \<open>emulators\<close> folder returns the first regular file of the
  listing, whichever it is.
\<close>

theorem C10_empty_console_matches_all:
  "contains (lower file) (lower []) \<and>
   ((\<forall>p. configured cfg [] = Some p \<longrightarrow> \<not> os_path_exists fs p) \<and>
    stat fs ''emulators'' = Some (Dir names) \<and>
    find (\<lambda>n. os_path_isfile fs (os_path_join ''emulators'' n)) names = Some n \<longrightarrow>
      fst (find_emulator fs cfg []) = Inr (Some (os_path_join ''emulators'' n)))"
proof (intro conjI impI)
  show "contains (lower file) (lower [])"
    by (simp add: lower_def contains_empty)
next
  assume a: "(\<forall>p. configured cfg [] = Some p \<longrightarrow> \<not> os_path_exists fs p) \<and>
    stat fs ''emulators'' = Some (Dir names) \<and>
    find (\<lambda>n. os_path_isfile fs (os_path_join ''emulators'' n)) names = Some n"
  then have "fst (scan fs ''emulators'' [] names) = Some (os_path_join ''emulators'' n)"
    by (simp add: scan_empty_console)
  with a show "fst (find_emulator fs cfg []) = Inr (Some (os_path_join ''emulators'' n))"
    using find_emulator_after_config [of cfg "[]" fs names] by simp
qed

text \<open>With the empty console name the text file that is listed first is returned.\<close>

theorem C10_witness:
  "configured example_config [] = None \<and>
   stat example_fs ''emulators'' = Some (Dir [''readme.txt'', ''saves'', ''Nestopia.EXE'']) \<and>
   find (\<lambda>n. os_path_isfile example_fs (os_path_join ''emulators'' n))
        [''readme.txt'', ''saves'', ''Nestopia.EXE''] = Some ''readme.txt'' \<and>
   fst (find_emulator example_fs example_config []) = Inr (Some ''emulators/readme.txt'')"
proof -
  have c: "configured example_config [] = None" by code_simp
  then have c': "\<forall>p. configured example_config [] = Some p \<longrightarrow> \<not> os_path_exists example_fs p"
    by simp
  have d: "stat example_fs ''emulators'' = Some (Dir [''readme.txt'', ''saves'', ''Nestopia.EXE''])"
    by code_simp
  have f: "find (\<lambda>n. os_path_isfile example_fs (os_path_join ''emulators'' n))
             [''readme.txt'', ''saves'', ''Nestopia.EXE''] = Some ''readme.txt''"
    by code_simp
  have j: "os_path_join ''emulators'' ''readme.txt'' = ''emulators/readme.txt''"
    by code_simp
  from C10_empty_console_matches_all
         [where cfg = example_config and fs = example_fs
            and names = "[''readme.txt'', ''saves'', ''Nestopia.EXE'']" and n = "''readme.txt''"]
       c' d f
  have "fst (find_emulator example_fs example_config [])
          = Inr (Some (os_path_join ''emulators'' ''readme.txt''))"
    by blast
  with c d f j show ?thesis by (simp only: simp_thms)
qed

end
